theory Spec2Isabelle
  imports Complex_Main "HOL-Library.Word"
begin

section \<open>Data model of the point-force actuator\<close>

text \<open>
  The component is the class template \<open>ForcePointActuator<DataTypes>\<close> of
  \<open>ForcePointActuator.inl\<close>. Its scalar type \<open>Real\<close> is the type variable \<open>'r\<close>. The
  model applies to it the operations the source applies (\<open>0\<close>, \<open>1\<close>, \<open>+\<close>, \<open>-\<close>,
  \<open>rabs\<close>, \<open>/\<close> and the comparisons) and assumes no law about them: a statement
  proved for every \<open>'r\<close> holds of the rounded arithmetic of the machine as it holds
  of exact arithmetic. Two instances appear below: the exact reals, and the type
  \<open>double\<close> with every operation rounded to 53 bits.

  Unsigned 32-bit counters (\<open>unsigned int\<close>, \<open>sofa::Index\<close>) are \<^typ>\<open>32 word\<close>.
  Every read or write of a \<open>sofa::type::vector\<close> through \<open>operator[]\<close> is checked in
  the model: an index past the end is the error \<open>OutOfRange\<close>, and a use of a null
  \<open>m_state\<close> is the error \<open>NullState\<close>.
\<close>

datatype error = OutOfRange | NullState

text \<open>A \<open>sofa::Data<T>\<close> field: its value and whether it was set explicitly.\<close>

datatype 'a Data = Data (getValue: 'a) (isSet: bool)

text \<open>\<open>Deriv\<close> of the point types: a vector of three scalars.\<close>

datatype 'r Deriv = Vec3 'r 'r 'r

text \<open>
  Modelled from the spec: \<open>Deriv::total_size\<close>, a constant of the \<open>DataTypes\<close>
  parameter that the file does not declare. The spec fixes the free mode to three
  independent axes and \<open>direction\<close> to a 3-vector.
\<close>

definition total_size :: nat where
  "total_size = 3"

text \<open>
  What the source takes from outside the file for its arithmetic on \<open>Deriv\<close> and for
  its threshold: the member function \<open>norm()\<close> of the vector library, and the value
  of the literal \<open>1e-10\<close> in the scalar type. Both are parameters of the model.
\<close>

record 'r Library =
  norm_of :: "'r Deriv \<Rightarrow> 'r"
  lit_1e_10 :: 'r

text \<open>\<open>direction /= c\<close>: each component is divided by \<open>c\<close>.\<close>

fun divide_Deriv :: "('r::inverse) Deriv \<Rightarrow> 'r \<Rightarrow> 'r Deriv" where
  "divide_Deriv (Vec3 x y z) c = Vec3 (x / c) (y / c) (z / c)"

text \<open>\<open>Deriv dir; dir[j] = 1;\<close> on a zero-initialised vector.\<close>

definition Deriv_set :: "'r Deriv \<Rightarrow> nat \<Rightarrow> 'r \<Rightarrow> error + 'r Deriv" where
  "Deriv_set d j v =
     (case d of Vec3 x y z \<Rightarrow>
        if j = 0 then Inr (Vec3 v y z)
        else if j = 1 then Inr (Vec3 x v z)
        else if j = 2 then Inr (Vec3 x y v)
        else Inl OutOfRange)"

record 'r ForcePointActuator =
  d_indices :: "32 word list"
  d_maxForce :: "'r Data"
  d_minForce :: "'r Data"
  d_initForce :: "'r Data"
  d_maxForceVariation :: "'r Data"
  d_force :: "'r list"
  d_displacement :: 'r
  d_direction :: "'r Deriv"
  d_epsilon :: "'r Data"
  d_constraintIndex :: "32 word"
  m_state :: "32 word option"
  m_dim :: nat
  m_hasEpsilon :: bool
  m_epsilon :: 'r
  m_hasLambdaInit :: bool
  m_hasLambdaMax :: bool
  m_hasLambdaMin :: bool
  m_lambdaInit :: "'r list"
  m_lambdaMax :: "'r list"
  m_lambdaMin :: "'r list"
  m_nbLines :: "32 word"

text \<open>
  In the record, \<open>m_state\<close> is the point count \<open>m_state->getSize()\<close> of the
  mechanical state, or \<open>None\<close> for a null pointer. The fields \<open>d_showForce\<close> and
  \<open>d_visuScale\<close> are read by \<open>draw\<close> only and are left out.
\<close>

subsection \<open>Vector access\<close>

definition vector_read :: "'a list \<Rightarrow> nat \<Rightarrow> error + 'a" where
  "vector_read xs i = (if i < length xs then Inr (xs ! i) else Inl OutOfRange)"

definition vector_write :: "'a list \<Rightarrow> nat \<Rightarrow> 'a \<Rightarrow> error + 'a list" where
  "vector_write xs i v = (if i < length xs then Inr (xs[i := v]) else Inl OutOfRange)"

text \<open>\<open>v.resize(n)\<close> and \<open>v.resize(n, x)\<close>: truncate, or extend with \<open>x\<close>.\<close>

definition resize :: "nat \<Rightarrow> 'a \<Rightarrow> 'a list \<Rightarrow> 'a list" where
  "resize n x xs = take n xs @ replicate (n - length xs) x"

text \<open>Sequencing of steps that may fail: the first error ends the call.\<close>

definition bind_error :: "error + 'a \<Rightarrow> ('a \<Rightarrow> error + 'b) \<Rightarrow> error + 'b" where
  "bind_error r f = (case r of Inl e \<Rightarrow> Inl e | Inr v \<Rightarrow> f v)"

text \<open>A counted loop \<open>for (j = ...; ...; j++) body\<close> over the given indices,
  stopping at the first error.\<close>

fun for_each :: "('i \<Rightarrow> 's \<Rightarrow> error + 's) \<Rightarrow> 'i list \<Rightarrow> 's \<Rightarrow> error + 's" where
  "for_each body [] s = Inr s"
| "for_each body (j # js) s = bind_error (body j s) (for_each body js)"

section \<open>Bound manager\<close>

text \<open>
  The body that \<open>updateLimit\<close> runs at axis \<open>j\<close>, in the loop of the free mode and
  at \<open>j = 0\<close> in the fixed mode. The left operand of each \<open>||\<close> is evaluated first,
  so both vectors are read whether or not the bound was set explicitly. The
  difference, the absolute value, the comparison and the re-centred bound are
  computed in \<open>Real\<close>.
\<close>

definition updateLimit_at ::
  "nat \<Rightarrow> ('r::{plus,minus,abs,ord}) ForcePointActuator \<Rightarrow> error + 'r ForcePointActuator" where
  "updateLimit_at j s =
     bind_error (vector_read (m_lambdaMin s) j) (\<lambda>lmin.
     bind_error (vector_read (d_force s) j) (\<lambda>f.
       let s1 = (if getValue (d_maxForceVariation s) \<le> \<bar>lmin - f\<bar> \<or> \<not> isSet (d_minForce s)
                 then s\<lparr>m_lambdaMin := (m_lambdaMin s)[j := f - getValue (d_maxForceVariation s)]\<rparr>
                 else s)
       in bind_error (vector_read (m_lambdaMax s1) j) (\<lambda>lmax.
            Inr (if getValue (d_maxForceVariation s1) \<le> \<bar>lmax - f\<bar> \<or> \<not> isSet (d_maxForce s1)
                 then s1\<lparr>m_lambdaMax := (m_lambdaMax s1)[j := f + getValue (d_maxForceVariation s1)]\<rparr>
                 else s1))))"

definition updateLimit ::
  "('r::{plus,minus,abs,ord}) ForcePointActuator \<Rightarrow> error + 'r ForcePointActuator" where
  "updateLimit s =
     (let s1 = (if isSet (d_maxForce s)
                then s\<lparr>m_lambdaMax := map (\<lambda>_. getValue (d_maxForce s)) (m_lambdaMax s)\<rparr>
                else s);
          s2 = (if isSet (d_minForce s1)
                then s1\<lparr>m_lambdaMin := map (\<lambda>_. getValue (d_minForce s1)) (m_lambdaMin s1)\<rparr>
                else s1)
      in if isSet (d_maxForceVariation s2)
         then (if 1 < m_dim s2 then for_each updateLimit_at [0..<total_size] s2
               else updateLimit_at 0 s2)
         else Inr s2)"

definition initLimit ::
  "('r::{plus,minus,abs,ord}) ForcePointActuator \<Rightarrow> error + 'r ForcePointActuator" where
  "initLimit s =
     (let s1 = (if isSet (d_maxForce s) then s\<lparr>m_hasLambdaMax := True\<rparr> else s);
          s2 = (if isSet (d_minForce s1) then s1\<lparr>m_hasLambdaMin := True\<rparr> else s1);
          s3 = (if isSet (d_maxForceVariation s2)
                then s2\<lparr>m_hasLambdaMax := True, m_hasLambdaMin := True\<rparr> else s2)
      in updateLimit s3)"

section \<open>Configuration resolver\<close>

text \<open>
  \<open>initData\<close>. The dimension test compares the norm that the library computes with
  the value of the literal \<open>1e-10\<close>. The write
  \<open>m_lambdaInit[0] = d_initForce.getValue()\<close> comes before
  \<open>m_lambdaInit.resize(m_dim)\<close>, on the vector as it is on entry. The local
  \<open>force\<close> starts empty, so its \<open>resize\<close> fills it with the initial force.
\<close>

definition initData ::
  "'r Library \<Rightarrow> ('r::{zero,ord}) ForcePointActuator \<Rightarrow> error + 'r ForcePointActuator" where
  "initData lib s =
     (let s1 = s\<lparr>m_dim := (if norm_of lib (d_direction s) < lit_1e_10 lib then total_size else 1)\<rparr>;
          s2 = (if isSet (d_epsilon s1)
                then s1\<lparr>m_hasEpsilon := True, m_epsilon := getValue (d_epsilon s1)\<rparr>
                else s1)
      in bind_error
           (if isSet (d_initForce s2)
            then bind_error (vector_write (m_lambdaInit s2) 0 (getValue (d_initForce s2)))
                   (\<lambda>l. Inr (s2\<lparr>m_hasLambdaInit := True, m_lambdaInit := l\<rparr>))
            else Inr s2)
           (\<lambda>s3. Inr (s3\<lparr>d_force := resize (m_dim s3) (getValue (d_initForce s3)) [],
                          m_lambdaInit := resize (m_dim s3) 0 (m_lambdaInit s3),
                          m_lambdaMax := resize (m_dim s3) 0 (m_lambdaMax s3),
                          m_lambdaMin := resize (m_dim s3) 0 (m_lambdaMin s3)\<rparr>)))"

text \<open>
  \<open>init\<close> and \<open>reinit\<close>. The call \<open>Inherit1::init()\<close> belongs to the base class and
  the null check of \<open>m_state\<close> only logs a message; the record passed in is the
  object after both.
\<close>

definition init ::
  "'r Library \<Rightarrow> ('r::{zero,plus,minus,abs,ord}) ForcePointActuator \<Rightarrow>
     error + 'r ForcePointActuator" where
  "init lib s = bind_error (initData lib s) initLimit"

definition reinit ::
  "'r Library \<Rightarrow> ('r::{zero,plus,minus,abs,ord}) ForcePointActuator \<Rightarrow>
     error + 'r ForcePointActuator" where
  "reinit lib s = bind_error (initData lib s) initLimit"

section \<open>Constraint row builder\<close>

text \<open>
  The constraint matrix \<open>MatrixDeriv\<close> belongs to the framework. The model keeps, for
  each line opened by \<open>writeLine\<close>, the sequence of the \<open>addCol\<close> calls made on it:
  pairs of a point index and a \<open>Deriv\<close> value, in call order.
\<close>

type_synonym 'r MatrixDeriv = "32 word \<Rightarrow> (32 word \<times> 'r Deriv) list option"

definition writeLine :: "32 word \<Rightarrow> 'r MatrixDeriv \<Rightarrow> 'r MatrixDeriv" where
  "writeLine r m = (case m r of None \<Rightarrow> m(r \<mapsto> []) | Some l \<Rightarrow> m)"

definition addCol :: "32 word \<Rightarrow> 32 word \<Rightarrow> 'r Deriv \<Rightarrow> 'r MatrixDeriv \<Rightarrow> 'r MatrixDeriv" where
  "addCol r c v m = m(r \<mapsto> (case m r of None \<Rightarrow> [] | Some l \<Rightarrow> l) @ [(c, v)])"

text \<open>The body of the loop over \<open>d_indices\<close>:
  \<open>if (d_indices.getValue()[i] < m_state->getSize()) rowIterator.addCol(...)\<close>.\<close>

definition addCol_if_valid ::
  "'r ForcePointActuator \<Rightarrow> 32 word \<Rightarrow> 'r Deriv \<Rightarrow> 32 word \<Rightarrow> 'r MatrixDeriv \<Rightarrow>
     error + 'r MatrixDeriv" where
  "addCol_if_valid s r dir idx m =
     (case m_state s of
        None \<Rightarrow> Inl NullState
      | Some n \<Rightarrow> Inr (if idx < n then addCol r idx dir m else m))"

text \<open>One pass of the loop over the axes in the free mode.\<close>

definition free_row ::
  "('r::{zero,one}) ForcePointActuator \<Rightarrow> nat \<Rightarrow> 'r MatrixDeriv \<times> 32 word \<Rightarrow>
     error + 'r MatrixDeriv \<times> 32 word" where
  "free_row s j mc =
     bind_error (Deriv_set (Vec3 0 0 0) j 1) (\<lambda>dir.
     bind_error
       (for_each (addCol_if_valid s (d_constraintIndex s + of_nat j) dir) (d_indices s)
          (writeLine (d_constraintIndex s + of_nat j) (fst mc)))
       (\<lambda>m'. Inr (m', snd mc + 1)))"

text \<open>The fixed mode: \<open>direction /= direction.norm()\<close>, then one line.\<close>

definition fixed_row ::
  "'r Library \<Rightarrow> ('r::inverse) ForcePointActuator \<Rightarrow> 'r MatrixDeriv \<times> 32 word \<Rightarrow>
     error + 'r MatrixDeriv \<times> 32 word" where
  "fixed_row lib s mc =
     bind_error
       (for_each
          (addCol_if_valid s (d_constraintIndex s)
             (divide_Deriv (d_direction s) (norm_of lib (d_direction s))))
          (d_indices s) (writeLine (d_constraintIndex s) (fst mc)))
       (\<lambda>m'. Inr (m', snd mc + 1))"

text \<open>\<open>buildConstraintMatrix\<close> returns the object, the matrix and the row counter
  \<open>cIndex\<close>, which the source takes by reference.\<close>

definition buildConstraintMatrix ::
  "'r Library \<Rightarrow> ('r::{zero,one,inverse}) ForcePointActuator \<Rightarrow> 'r MatrixDeriv \<Rightarrow> 32 word \<Rightarrow>
     error + 'r ForcePointActuator \<times> 'r MatrixDeriv \<times> 32 word" where
  "buildConstraintMatrix lib s cMatrix cIndex =
     (let s1 = s\<lparr>d_constraintIndex := cIndex\<rparr>
      in bind_error
           (if 1 < m_dim s1 then for_each (free_row s1) [0..<total_size] (cMatrix, cIndex)
            else fixed_row lib s1 (cMatrix, cIndex))
           (\<lambda>mc. Inr (s1\<lparr>m_nbLines := snd mc - d_constraintIndex s1\<rparr>, fst mc, snd mc)))"

section \<open>Result consumer\<close>

text \<open>\<open>force[j] = lambda[j]\<close>, both sides through \<open>operator[]\<close>.\<close>

definition store_force ::
  "'r list \<Rightarrow> nat \<Rightarrow> 'r ForcePointActuator \<Rightarrow> error + 'r ForcePointActuator" where
  "store_force lambda j s =
     bind_error (vector_read lambda j) (\<lambda>l.
     bind_error (vector_write (d_force s) j l) (\<lambda>f. Inr (s\<lparr>d_force := f\<rparr>)))"

text \<open>
  \<open>storeResults\<close>. Its last statement forwards to \<open>Actuator<DataTypes>::storeResults\<close>,
  a member of the base class that this file does not define: it is the parameter
  \<open>base\<close>.
\<close>

definition storeResults ::
  "(('r::{plus,minus,abs,ord}) ForcePointActuator \<Rightarrow> 'r list \<Rightarrow> 'r list \<Rightarrow>
      error + 'r ForcePointActuator) \<Rightarrow>
     'r ForcePointActuator \<Rightarrow> 'r list \<Rightarrow> 'r list \<Rightarrow> error + 'r ForcePointActuator" where
  "storeResults base s lambda delta =
     bind_error (vector_read delta 0) (\<lambda>d.
     bind_error
       (if 1 < m_dim s then for_each (store_force lambda) [0..<total_size] (s\<lparr>d_displacement := d\<rparr>)
        else store_force lambda 0 (s\<lparr>d_displacement := d\<rparr>))
       (\<lambda>s2. bind_error (updateLimit s2) (\<lambda>s3. base s3 lambda delta)))"

section \<open>Arithmetic of the scalar type\<close>

subsection \<open>Exact arithmetic\<close>

text \<open>The Euclidean norm and the threshold \<open>10\<^sup>-\<^sup>1\<^sup>0\<close> on the reals.\<close>

fun norm_exact :: "real Deriv \<Rightarrow> real" where
  "norm_exact (Vec3 x y z) = sqrt (x * x + y * y + z * z)"

definition exact_library :: "real Library" where
  "exact_library = \<lparr>norm_of = norm_exact, lit_1e_10 = 1 / 10 ^ 10\<rparr>"

subsection \<open>Double precision\<close>

text \<open>
  A finite \<open>double\<close> is given by its real value. Each arithmetic operation returns
  the exact result rounded to the nearest number with a significand of 53 bits, ties
  going to the even significand, as IEEE 754 prescribes for \<open>+\<close>, \<open>-\<close>, \<open>*\<close>, \<open>/\<close>
  and the square root. The exponent is not bounded: overflow to infinity, subnormal
  numbers and NaN are not represented, so the instance is the machine's arithmetic
  on the inputs whose intermediate results are all normal numbers.
\<close>

definition pow2 :: "int \<Rightarrow> real" where
  "pow2 k = (if 0 \<le> k then 2 ^ nat k else 1 / 2 ^ nat (- k))"

text \<open>The exponent \<open>k\<close> with \<open>2\<^sup>k \<le> |x| < 2\<^sup>k\<^sup>+\<^sup>1\<close>.\<close>

definition binade :: "real \<Rightarrow> int" where
  "binade x = \<lfloor>log 2 \<bar>x\<bar>\<rfloor>"

definition round_half_even :: "real \<Rightarrow> int" where
  "round_half_even y =
     (let n = \<lfloor>y\<rfloor>; r = y - of_int n
      in if r < 1 / 2 then n else if 1 / 2 < r then n + 1 else if even n then n else n + 1)"

definition round_double :: "real \<Rightarrow> real" where
  "round_double x =
     (if x = 0 then 0
      else pow2 (binade x - 52) * of_int (round_half_even (x / pow2 (binade x - 52))))"

text \<open>The reals that are doubles: rounding leaves them as they are.\<close>

definition representable :: "real \<Rightarrow> bool" where
  "representable x \<longleftrightarrow> round_double x = x"

datatype double = Double (val: real)

instantiation double :: "{zero,one,plus,minus,times,abs,ord,inverse}"
begin

definition zero_double :: double where
  "zero_double = Double 0"

definition one_double :: double where
  "one_double = Double 1"

definition plus_double :: "double \<Rightarrow> double \<Rightarrow> double" where
  "plus_double a b = Double (round_double (val a + val b))"

definition minus_double :: "double \<Rightarrow> double \<Rightarrow> double" where
  "minus_double a b = Double (round_double (val a - val b))"

definition times_double :: "double \<Rightarrow> double \<Rightarrow> double" where
  "times_double a b = Double (round_double (val a * val b))"

definition divide_double :: "double \<Rightarrow> double \<Rightarrow> double" where
  "divide_double a b = Double (round_double (val a / val b))"

definition inverse_double :: "double \<Rightarrow> double" where
  "inverse_double a = Double (round_double (1 / val a))"

definition abs_double :: "double \<Rightarrow> double" where
  "abs_double a = Double \<bar>val a\<bar>"

definition less_eq_double :: "double \<Rightarrow> double \<Rightarrow> bool" where
  "less_eq_double a b \<longleftrightarrow> val a \<le> val b"

definition less_double :: "double \<Rightarrow> double \<Rightarrow> bool" where
  "less_double a b \<longleftrightarrow> val a < val b"

instance ..

end

definition sqrt_double :: "double \<Rightarrow> double" where
  "sqrt_double a = Double (round_double (sqrt (val a)))"

text \<open>
  The norm of the vector library in double precision: the squares are accumulated
  from the first component on and the square root is taken of the sum, each
  operation rounded once.
\<close>

fun norm_double :: "double Deriv \<Rightarrow> double" where
  "norm_double (Vec3 x y z) = sqrt_double (x * x + y * y + z * z)"

text \<open>The literal \<open>1e-10\<close> denotes the double nearest to \<open>10\<^sup>-\<^sup>1\<^sup>0\<close>.\<close>

definition double_library :: "double Library" where
  "double_library = \<lparr>norm_of = norm_double, lit_1e_10 = Double (round_double (1 / 10 ^ 10))\<rparr>"

section \<open>Notions used by the statements\<close>

text \<open>
  The shape that \<open>initData\<close> leaves behind: the dimension is 1 or \<open>total_size\<close>, and
  the force and the three multiplier vectors have the dimension as their length.
\<close>

definition initialised :: "'r ForcePointActuator \<Rightarrow> bool" where
  "initialised s \<longleftrightarrow>
     (m_dim s = 1 \<or> m_dim s = total_size) \<and>
     length (d_force s) = m_dim s \<and>
     length (m_lambdaMin s) = m_dim s \<and>
     length (m_lambdaMax s) = m_dim s \<and>
     length (m_lambdaInit s) = m_dim s"

text \<open>What one pass of \<open>updateLimit_at\<close> stores in a floor or a ceiling entry.\<close>

definition recentred_min :: "('r::{plus,minus,abs,ord}) ForcePointActuator \<Rightarrow> 'r \<Rightarrow> 'r \<Rightarrow> 'r" where
  "recentred_min s lmin f =
     (if getValue (d_maxForceVariation s) \<le> \<bar>lmin - f\<bar> \<or> \<not> isSet (d_minForce s)
      then f - getValue (d_maxForceVariation s) else lmin)"

definition recentred_max :: "('r::{plus,minus,abs,ord}) ForcePointActuator \<Rightarrow> 'r \<Rightarrow> 'r \<Rightarrow> 'r" where
  "recentred_max s lmax f =
     (if getValue (d_maxForceVariation s) \<le> \<bar>lmax - f\<bar> \<or> \<not> isSet (d_maxForce s)
      then f + getValue (d_maxForceVariation s) else lmax)"

text \<open>The bounds after the two broadcast loops of \<open>updateLimit\<close>.\<close>

definition broadcast_max :: "'r ForcePointActuator \<Rightarrow> 'r list" where
  "broadcast_max s =
     (if isSet (d_maxForce s) then map (\<lambda>_. getValue (d_maxForce s)) (m_lambdaMax s)
      else m_lambdaMax s)"

definition broadcast_min :: "'r ForcePointActuator \<Rightarrow> 'r list" where
  "broadcast_min s =
     (if isSet (d_minForce s) then map (\<lambda>_. getValue (d_minForce s)) (m_lambdaMin s)
      else m_lambdaMin s)"

text \<open>The axes that \<open>updateLimit\<close> visits, and the bounds after visiting them.\<close>

definition axes :: "'r ForcePointActuator \<Rightarrow> nat list" where
  "axes s = (if 1 < m_dim s then [0..<total_size] else [0])"

definition recentre_all :: "('r \<Rightarrow> 'r \<Rightarrow> 'r) \<Rightarrow> 'r list \<Rightarrow> nat list \<Rightarrow> 'r list \<Rightarrow> 'r list" where
  "recentre_all g force js xs = fold (\<lambda>j ys. ys[j := g (ys ! j) (force ! j)]) js xs"

definition axes_in_range :: "'r ForcePointActuator \<Rightarrow> bool" where
  "axes_in_range s \<longleftrightarrow>
     (\<forall>j\<in>set (axes s). j < length (m_lambdaMin s) \<and> j < length (d_force s) \<and> j < length (m_lambdaMax s))"



text \<open>The object that \<open>initData\<close> returns when its write to \<open>m_lambdaInit[0]\<close> is in
  range.\<close>

definition after_initData ::
  "'r Library \<Rightarrow> ('r::{zero,ord}) ForcePointActuator \<Rightarrow> 'r ForcePointActuator" where
  "after_initData lib s =
     (let n = (if norm_of lib (d_direction s) < lit_1e_10 lib then total_size else 1)
      in s\<lparr>d_force := replicate n (getValue (d_initForce s)),
            m_dim := n,
            m_hasEpsilon := (isSet (d_epsilon s) \<or> m_hasEpsilon s),
            m_epsilon := (if isSet (d_epsilon s) then getValue (d_epsilon s) else m_epsilon s),
            m_hasLambdaInit := (isSet (d_initForce s) \<or> m_hasLambdaInit s),
            m_lambdaInit :=
              resize n 0 (if isSet (d_initForce s) then (m_lambdaInit s)[0 := getValue (d_initForce s)]
                          else m_lambdaInit s),
            m_lambdaMax := resize n 0 (m_lambdaMax s),
            m_lambdaMin := resize n 0 (m_lambdaMin s)\<rparr>)"

text \<open>The base behaviour that does nothing; it stands for \<open>Actuator::storeResults\<close> in
  the concrete instances.\<close>

definition base_noop ::
  "'r ForcePointActuator \<Rightarrow> 'r list \<Rightarrow> 'r list \<Rightarrow> error + 'r ForcePointActuator" where
  "base_noop s lambda delta = Inr s"

text \<open>The entries already on a line, and the entries one pass over \<open>d_indices\<close> adds
  on a body of \<open>n\<close> points.\<close>

definition row_of :: "'r MatrixDeriv \<Rightarrow> 32 word \<Rightarrow> (32 word \<times> 'r Deriv) list" where
  "row_of m r = (case m r of None \<Rightarrow> [] | Some l \<Rightarrow> l)"

definition row_entries :: "32 word \<Rightarrow> 32 word list \<Rightarrow> 'r Deriv \<Rightarrow> (32 word \<times> 'r Deriv) list" where
  "row_entries n idxs dir = map (\<lambda>i. (i, dir)) (filter (\<lambda>i. i < n) idxs)"

subsection \<open>Concrete actuators in exact arithmetic\<close>

text \<open>
  An initialised actuator along the x axis with the defaults the constructor declares
  (initial force 0, displacement 0, penalty 1e-3, no optional bound set), on a body of
  two points; and its counterpart in the free mode.
\<close>

definition fixed_actuator :: "real ForcePointActuator" where
  "fixed_actuator =
     \<lparr>d_indices = [], d_maxForce = Data 0 False, d_minForce = Data 0 False,
      d_initForce = Data 0 False, d_maxForceVariation = Data 0 False, d_force = [0],
      d_displacement = 0, d_direction = Vec3 1 0 0, d_epsilon = Data (1 / 1000) False,
      d_constraintIndex = 0, m_state = Some 2, m_dim = 1, m_hasEpsilon = False,
      m_epsilon = 0, m_hasLambdaInit = False, m_hasLambdaMax = False,
      m_hasLambdaMin = False, m_lambdaInit = [0], m_lambdaMax = [0], m_lambdaMin = [0],
      m_nbLines = 0\<rparr>"

definition free_actuator :: "real ForcePointActuator" where
  "free_actuator =
     fixed_actuator\<lparr>d_direction := Vec3 0 0 0, d_force := [0, 0, 0], m_dim := 3,
       m_lambdaInit := [0, 0, 0], m_lambdaMax := [0, 0, 0], m_lambdaMin := [0, 0, 0]\<rparr>"

definition rate_limited_actuator :: "real ForcePointActuator" where
  "rate_limited_actuator =
     fixed_actuator\<lparr>d_maxForce := Data 10 True, d_minForce := Data (- 10) True,
       d_maxForceVariation := Data 1 True, d_force := [3]\<rparr>"


text \<open>The spec's scenario of the free mode: zero direction, two points, initial force 2.\<close>

definition scenario_free_actuator :: "real ForcePointActuator" where
  "scenario_free_actuator = free_actuator\<lparr>d_indices := [0, 1], d_initForce := Data 2 True\<rparr>"

text \<open>The free-mode scenario with a point index past the end of the body.\<close>

definition stale_index_actuator :: "real ForcePointActuator" where
  "stale_index_actuator = scenario_free_actuator\<lparr>d_indices := [0, 5, 1]\<rparr>"

subsection \<open>Concrete actuators in double precision\<close>

text \<open>The same initialised actuator along the x axis, with \<open>Real = double\<close>.\<close>

definition double_actuator :: "double ForcePointActuator" where
  "double_actuator =
     \<lparr>d_indices = [], d_maxForce = Data 0 False, d_minForce = Data 0 False,
      d_initForce = Data 0 False, d_maxForceVariation = Data 0 False, d_force = [0],
      d_displacement = 0, d_direction = Vec3 1 0 0, d_epsilon = Data (Double (1 / 1000)) False,
      d_constraintIndex = 0, m_state = Some 2, m_dim = 1, m_hasEpsilon = False,
      m_epsilon = 0, m_hasLambdaInit = False, m_hasLambdaMax = False,
      m_hasLambdaMin = False, m_lambdaInit = [0], m_lambdaMax = [0], m_lambdaMin = [0],
      m_nbLines = 0\<rparr>"

text \<open>The spec's scenario of the rate limit: bounds 10 and -10, variation 1, force 3.\<close>

definition double_rate_limited :: "double ForcePointActuator" where
  "double_rate_limited =
     double_actuator\<lparr>d_maxForce := Data (Double 10) True, d_minForce := Data (Double (- 10)) True,
       d_maxForceVariation := Data (Double 1) True, d_force := [Double 3]\<rparr>"

text \<open>The variation 1 around the force 3, with no absolute bound.\<close>

definition double_band_actuator :: "double ForcePointActuator" where
  "double_band_actuator =
     double_actuator\<lparr>d_maxForceVariation := Data (Double 1) True, d_force := [Double 3]\<rparr>"

text \<open>
  The ceiling -1 lies \<open>1 - 2\<^sup>-\<^sup>6\<^sup>0\<close> above the force \<open>-2\<^sup>-\<^sup>6\<^sup>0\<close>, less than the
  variation 1.
\<close>

definition tiny_force :: double where
  "tiny_force = Double (- (1 / 1152921504606846976))"

definition near_ceiling_actuator :: "double ForcePointActuator" where
  "near_ceiling_actuator =
     double_actuator\<lparr>d_maxForce := Data (Double (- 1)) True, d_minForce := Data (Double (- 10)) True,
       d_maxForceVariation := Data (Double 1) True, d_force := [tiny_force]\<rparr>"

text \<open>The force \<open>10\<^sup>1\<^sup>6\<close> with the variation 1 and no absolute bound.\<close>

definition big_force :: double where
  "big_force = Double 10000000000000000"

definition big_force_actuator :: "double ForcePointActuator" where
  "big_force_actuator =
     double_actuator\<lparr>d_maxForceVariation := Data (Double 1) True, d_force := [big_force]\<rparr>"

text \<open>
  The double nearest to \<open>10\<^sup>-\<^sup>1\<^sup>0\<close>, and a direction whose Euclidean norm is below
  \<open>10\<^sup>-\<^sup>1\<^sup>0\<close>: the doubles written \<open>3.9144948834984616e-11\<close> and
  \<open>9.201995968650734e-11\<close>, with their rounded squares and the rounded sum of these.
\<close>

definition double_1e_10 :: double where
  "double_1e_10 = Double (7737125245533627 / 77371252455336267181195264)"

definition short_x :: double where
  "short_x = Double (94646678708213 / 2417851639229258349412352)"

definition short_y :: double where
  "short_y = Double (7119699531834625 / 77371252455336267181195264)"

definition short_xx :: double where
  "short_xx = Double (4073623945485315 / 2658455991569831745807614120560689152)"

definition short_yy :: double where
  "short_yy = Double (2813866996276625 / 332306998946228968225951765070086144)"

definition short_sum :: double where
  "short_sum = Double (6646139978924579 / 664613997892457936451903530140172288)"

text \<open>An actuator left in the free mode whose direction was then set to that vector.\<close>

definition short_direction_actuator :: "double ForcePointActuator" where
  "short_direction_actuator =
     double_actuator\<lparr>d_direction := Vec3 short_x short_y 0, d_force := [0, 0, 0], m_dim := 3,
       m_lambdaInit := [0, 0, 0], m_lambdaMax := [0, 0, 0], m_lambdaMin := [0, 0, 0]\<rparr>"

text \<open>The free mode in double precision, with a point index past the end of the body.\<close>

definition double_free_actuator :: "double ForcePointActuator" where
  "double_free_actuator =
     double_actuator\<lparr>d_indices := [0, 5, 1], d_direction := Vec3 0 0 0, d_force := [0, 0, 0],
       m_dim := 3, m_lambdaInit := [0, 0, 0], m_lambdaMax := [0, 0, 0],
       m_lambdaMin := [0, 0, 0]\<rparr>"

text \<open>The direction \<open>(2, 3, 6)\<close> of norm 7, and the doubles nearest to 2/7, 3/7, 6/7.\<close>

definition two_sevenths :: double where
  "two_sevenths = Double (2573485501354569 / 9007199254740992)"

definition three_sevenths :: double where
  "three_sevenths = Double (7720456504063707 / 18014398509481984)"

definition six_sevenths :: double where
  "six_sevenths = Double (7720456504063707 / 9007199254740992)"







section \<open>Rounding to double precision\<close>

lemma pow2_pos [simp]: "0 < pow2 k"
  by (simp add: pow2_def)

lemma pow2_nonzero [simp]: "pow2 k \<noteq> 0"
  using pow2_pos [of k] by linarith

lemma pow2_powr: "pow2 k = 2 powr of_int k"
  by (simp add: pow2_def powr_real_of_int divide_inverse)

lemma binade_eqI:
  assumes "pow2 k \<le> \<bar>x\<bar>" and "\<bar>x\<bar> < pow2 (k + 1)"
  shows "binade x = k"
proof -
  have pos: "0 < \<bar>x\<bar>" using assms(1) pow2_pos [of k] by linarith
  have lo: "of_int k \<le> log 2 \<bar>x\<bar>"
    using assms(1) pos by (simp add: le_log_iff pow2_powr)
  have hi: "log 2 \<bar>x\<bar> < of_int k + 1"
    using assms(2) pos by (simp add: log_less_iff pow2_powr)
  show ?thesis
    unfolding binade_def using lo hi by (simp add: floor_eq_iff)
qed

lemma round_half_even_near:
  assumes "\<bar>y - of_int m\<bar> < 1 / 2"
  shows "round_half_even y = m"
proof (cases "of_int m \<le> y")
  case True
  with assms have "\<lfloor>y\<rfloor> = m" by (simp add: floor_eq_iff abs_less_iff)
  with assms True show ?thesis
    by (simp add: round_half_even_def Let_def)
next
  case False
  with assms have fl: "\<lfloor>y\<rfloor> = m - 1" by (simp add: floor_eq_iff abs_less_iff)
  have "\<not> y - of_int (m - 1) < 1 / 2" "1 / 2 < y - of_int (m - 1)"
    using assms False by (simp_all add: abs_less_iff)
  then show ?thesis
    by (simp add: round_half_even_def Let_def fl)
qed

lemma round_half_even_tie:
  assumes "y = of_int n + 1 / 2"
  shows "round_half_even y = (if even n then n else n + 1)"
proof -
  have "\<lfloor>y\<rfloor> = n" using assms by (simp add: floor_eq_iff)
  then show ?thesis
    using assms by (simp add: round_half_even_def Let_def)
qed

lemma round_double_nearest:
  assumes "pow2 k \<le> \<bar>x\<bar>" and "\<bar>x\<bar> < pow2 (k + 1)"
    and "\<bar>x - pow2 (k - 52) * of_int m\<bar> < pow2 (k - 52) / 2"
  shows "round_double x = pow2 (k - 52) * of_int m"
proof -
  have b: "binade x = k" using assms(1,2) by (rule binade_eqI)
  have nz: "x \<noteq> 0" using assms(1) pow2_pos [of k] by (auto simp: not_le [symmetric] simp del: pow2_pos)
  let ?u = "pow2 (k - 52)"
  have "x / ?u - of_int m = (x - ?u * of_int m) / ?u"
    by (simp add: field_simps)
  moreover have "\<bar>?u\<bar> = ?u"
    by (rule abs_of_pos) simp
  ultimately have "\<bar>x / ?u - of_int m\<bar> = \<bar>x - ?u * of_int m\<bar> / ?u"
    by (simp only: abs_divide)
  also have "\<dots> < 1 / 2"
    using assms(3) by (simp add: field_simps)
  finally have "round_half_even (x / ?u) = m" by (rule round_half_even_near)
  then show ?thesis
    by (simp add: round_double_def b nz)
qed

lemma round_double_tie:
  assumes "pow2 k \<le> \<bar>x\<bar>" and "\<bar>x\<bar> < pow2 (k + 1)"
    and "x = pow2 (k - 52) * (of_int n + 1 / 2)"
  shows "round_double x = pow2 (k - 52) * of_int (if even n then n else n + 1)"
proof -
  have b: "binade x = k" using assms(1,2) by (rule binade_eqI)
  have nz: "x \<noteq> 0" using assms(1) pow2_pos [of k] by (auto simp: not_le [symmetric] simp del: pow2_pos)
  have "x / pow2 (k - 52) = of_int n + 1 / 2"
    using assms(3) by simp
  then have "round_half_even (x / pow2 (k - 52)) = (if even n then n else n + 1)"
    by (rule round_half_even_tie)
  then show ?thesis
    by (simp add: round_double_def b nz)
qed

lemma round_double_sqrt:
  assumes "(pow2 k)\<^sup>2 \<le> q" and "q < (pow2 (k + 1))\<^sup>2"
    and "0 \<le> pow2 (k - 52) * of_int m - pow2 (k - 52) / 2"
    and "(pow2 (k - 52) * of_int m - pow2 (k - 52) / 2)\<^sup>2 < q"
    and "q < (pow2 (k - 52) * of_int m + pow2 (k - 52) / 2)\<^sup>2"
  shows "round_double (sqrt q) = pow2 (k - 52) * of_int m"
proof (rule round_double_nearest)
  have "0 < (pow2 k)\<^sup>2" by simp
  with assms(1) have q: "0 < q" by linarith
  have s: "0 \<le> sqrt q" using q by simp
  show "pow2 k \<le> \<bar>sqrt q\<bar>"
    using assms(1) s by (simp add: real_le_rsqrt)
  have "sqrt q < pow2 (k + 1)"
    using assms(2) q by (intro real_less_lsqrt) (simp_all add: less_imp_le)
  then show "\<bar>sqrt q\<bar> < pow2 (k + 1)" using s by simp
  let ?d = "pow2 (k - 52) * of_int m" and ?h = "pow2 (k - 52) / 2"
  have lo: "?d - ?h < sqrt q"
    using assms(4) by (rule real_less_rsqrt)
  have "0 \<le> ?d + ?h" using assms(3) pow2_pos [of "k - 52"] by linarith
  then have hi: "sqrt q < ?d + ?h"
    using assms(5) q by (intro real_less_lsqrt) simp_all
  from lo hi have "sqrt q - ?d < ?h" and "- (sqrt q - ?d) < ?h"
    by linarith+
  then show "\<bar>sqrt q - ?d\<bar> < ?h"
    by (simp only: abs_less_iff)
qed

subsection \<open>The operations at the concrete inputs\<close>

lemma double_10_minus_3: "Double 10 - Double 3 = (Double 7 :: double)"
proof -
  have "round_double (10 - 3) = pow2 (2 - 52) * of_int (7881299347898368)"
    by (rule round_double_nearest) (simp_all add: pow2_def)
  then show ?thesis
    by (simp add: minus_double_def pow2_def)
qed

lemma double_3_plus_1: "Double 3 + Double 1 = (Double 4 :: double)"
proof -
  have "round_double (3 + 1) = pow2 (2 - 52) * of_int (4503599627370496)"
    by (rule round_double_nearest) (simp_all add: pow2_def)
  then show ?thesis
    by (simp add: plus_double_def pow2_def)
qed

lemma double_neg10_minus_3: "Double (- 10) - Double 3 = (Double (- 13) :: double)"
proof -
  have "round_double ((- 10) - 3) = pow2 (3 - 52) * of_int (- 7318349394477056)"
    by (rule round_double_nearest) (simp_all add: pow2_def)
  then show ?thesis
    by (simp add: minus_double_def pow2_def)
qed

lemma double_3_minus_1: "Double 3 - Double 1 = (Double 2 :: double)"
proof -
  have "round_double (3 - 1) = pow2 (1 - 52) * of_int (4503599627370496)"
    by (rule round_double_nearest) (simp_all add: pow2_def)
  then show ?thesis
    by (simp add: minus_double_def pow2_def)
qed

lemma double_neg1_minus_tiny: "Double (- 1) - tiny_force = (Double (- 1) :: double)"
proof -
  have "round_double ((- 1) - (- (1 / 1152921504606846976))) = pow2 (- 1 - 52) * of_int (- 9007199254740992)"
    by (rule round_double_nearest) (simp_all add: pow2_def)
  then show ?thesis
    by (simp add: minus_double_def tiny_force_def pow2_def)
qed

lemma double_tiny_plus_1: "tiny_force + Double 1 = (Double 1 :: double)"
proof -
  have "round_double ((- (1 / 1152921504606846976)) + 1) = pow2 (- 1 - 52) * of_int (9007199254740992)"
    by (rule round_double_nearest) (simp_all add: pow2_def)
  then show ?thesis
    by (simp add: plus_double_def tiny_force_def pow2_def)
qed

lemma double_neg10_minus_tiny: "Double (- 10) - tiny_force = (Double (- 10) :: double)"
proof -
  have "round_double ((- 10) - (- (1 / 1152921504606846976))) = pow2 (3 - 52) * of_int (- 5629499534213120)"
    by (rule round_double_nearest) (simp_all add: pow2_def)
  then show ?thesis
    by (simp add: minus_double_def tiny_force_def pow2_def)
qed

lemma double_tiny_minus_1: "tiny_force - Double 1 = (Double (- 1) :: double)"
proof -
  have "round_double ((- (1 / 1152921504606846976)) - 1) = pow2 (0 - 52) * of_int (- 4503599627370496)"
    by (rule round_double_nearest) (simp_all add: pow2_def)
  then show ?thesis
    by (simp add: minus_double_def tiny_force_def pow2_def)
qed

lemma double_big_plus_1: "big_force + Double 1 = (big_force :: double)"
proof -
  have "round_double (10000000000000000 + 1) = pow2 (53 - 52) * of_int (if even (5000000000000000 :: int) then 5000000000000000 else 5000000000000000 + 1)"
    by (rule round_double_tie) (simp_all add: pow2_def)
  then show ?thesis
    by (simp add: big_force_def plus_double_def pow2_def)
qed

lemma double_big_minus_1: "big_force - Double 1 = (big_force :: double)"
proof -
  have "round_double (10000000000000000 - 1) = pow2 (53 - 52) * of_int (if even (4999999999999999 :: int) then 4999999999999999 else 4999999999999999 + 1)"
    by (rule round_double_tie) (simp_all add: pow2_def)
  then show ?thesis
    by (simp add: big_force_def minus_double_def pow2_def)
qed

lemma double_big_minus_big: "big_force - big_force = (Double 0 :: double)"
  by (simp add: big_force_def minus_double_def round_double_def)

lemma double_0_times_0: "0 * 0 = (0 :: double)"
  by (simp add: times_double_def zero_double_def round_double_def)

lemma double_0_plus_0: "0 + 0 = (0 :: double)"
  by (simp add: plus_double_def zero_double_def round_double_def)

lemma double_1_times_1: "1 * 1 = (1 :: double)"
proof -
  have "round_double (1 * 1) = pow2 (0 - 52) * of_int (4503599627370496)"
    by (rule round_double_nearest) (simp_all add: pow2_def)
  then show ?thesis
    by (simp add: one_double_def times_double_def pow2_def)
qed

lemma double_1_plus_0: "1 + 0 = (1 :: double)"
proof -
  have "round_double (1 + 0) = pow2 (0 - 52) * of_int (4503599627370496)"
    by (rule round_double_nearest) (simp_all add: pow2_def)
  then show ?thesis
    by (simp add: one_double_def plus_double_def zero_double_def pow2_def)
qed

lemma double_sqrt_0: "sqrt_double 0 = (0 :: double)"
  by (simp add: sqrt_double_def zero_double_def round_double_def)

lemma double_sqrt_1: "sqrt_double 1 = (1 :: double)"
proof -
  have "round_double (sqrt 1) = pow2 (0 - 52) * of_int (4503599627370496)"
    by (rule round_double_sqrt) (simp_all add: pow2_def power2_eq_square)
  then show ?thesis
    by (simp add: one_double_def sqrt_double_def pow2_def)
qed

lemma double_2_times_2: "Double 2 * Double 2 = (Double 4 :: double)"
proof -
  have "round_double (2 * 2) = pow2 (2 - 52) * of_int (4503599627370496)"
    by (rule round_double_nearest) (simp_all add: pow2_def)
  then show ?thesis
    by (simp add: times_double_def pow2_def)
qed

lemma double_3_times_3: "Double 3 * Double 3 = (Double 9 :: double)"
proof -
  have "round_double (3 * 3) = pow2 (3 - 52) * of_int (5066549580791808)"
    by (rule round_double_nearest) (simp_all add: pow2_def)
  then show ?thesis
    by (simp add: times_double_def pow2_def)
qed

lemma double_6_times_6: "Double 6 * Double 6 = (Double 36 :: double)"
proof -
  have "round_double (6 * 6) = pow2 (5 - 52) * of_int (5066549580791808)"
    by (rule round_double_nearest) (simp_all add: pow2_def)
  then show ?thesis
    by (simp add: times_double_def pow2_def)
qed

lemma double_4_plus_9: "Double 4 + Double 9 = (Double 13 :: double)"
proof -
  have "round_double (4 + 9) = pow2 (3 - 52) * of_int (7318349394477056)"
    by (rule round_double_nearest) (simp_all add: pow2_def)
  then show ?thesis
    by (simp add: plus_double_def pow2_def)
qed

lemma double_13_plus_36: "Double 13 + Double 36 = (Double 49 :: double)"
proof -
  have "round_double (13 + 36) = pow2 (5 - 52) * of_int (6896136929411072)"
    by (rule round_double_nearest) (simp_all add: pow2_def)
  then show ?thesis
    by (simp add: plus_double_def pow2_def)
qed

lemma double_sqrt_49: "sqrt_double (Double 49) = (Double 7 :: double)"
proof -
  have "round_double (sqrt 49) = pow2 (2 - 52) * of_int (7881299347898368)"
    by (rule round_double_sqrt) (simp_all add: pow2_def power2_eq_square)
  then show ?thesis
    by (simp add: sqrt_double_def pow2_def)
qed

lemma double_2_div_7: "Double 2 / Double 7 = (two_sevenths :: double)"
proof -
  have "round_double (2 / 7) = pow2 (- 2 - 52) * of_int (5146971002709138)"
    by (rule round_double_nearest) (simp_all add: pow2_def)
  then show ?thesis
    by (simp add: divide_double_def two_sevenths_def pow2_def)
qed

lemma double_3_div_7: "Double 3 / Double 7 = (three_sevenths :: double)"
proof -
  have "round_double (3 / 7) = pow2 (- 2 - 52) * of_int (7720456504063707)"
    by (rule round_double_nearest) (simp_all add: pow2_def)
  then show ?thesis
    by (simp add: divide_double_def three_sevenths_def pow2_def)
qed

lemma double_6_div_7: "Double 6 / Double 7 = (six_sevenths :: double)"
proof -
  have "round_double (6 / 7) = pow2 (- 1 - 52) * of_int (7720456504063707)"
    by (rule round_double_nearest) (simp_all add: pow2_def)
  then show ?thesis
    by (simp add: divide_double_def six_sevenths_def pow2_def)
qed

lemma double_short_x_squared: "short_x * short_x = (short_xx :: double)"
proof -
  have "round_double ((94646678708213 / 2417851639229258349412352) * (94646678708213 / 2417851639229258349412352)) = pow2 (- 70 - 52) * of_int (8147247890970630)"
    by (rule round_double_nearest) (simp_all add: pow2_def)
  then show ?thesis
    by (simp add: short_x_def short_xx_def times_double_def pow2_def)
qed

lemma double_short_y_squared: "short_y * short_y = (short_yy :: double)"
proof -
  have "round_double ((7119699531834625 / 77371252455336267181195264) * (7119699531834625 / 77371252455336267181195264)) = pow2 (- 67 - 52) * of_int (5627733992553250)"
    by (rule round_double_nearest) (simp_all add: pow2_def)
  then show ?thesis
    by (simp add: short_y_def short_yy_def times_double_def pow2_def)
qed

lemma double_short_xx_plus_yy: "short_xx + short_yy = (short_sum :: double)"
proof -
  have "round_double ((4073623945485315 / 2658455991569831745807614120560689152) + (2813866996276625 / 332306998946228968225951765070086144)) = pow2 (- 67 - 52) * of_int (6646139978924579)"
    by (rule round_double_nearest) (simp_all add: pow2_def)
  then show ?thesis
    by (simp add: plus_double_def short_sum_def short_xx_def short_yy_def pow2_def)
qed

lemma double_short_sum_plus_0: "short_sum + 0 = (short_sum :: double)"
proof -
  have "round_double ((6646139978924579 / 664613997892457936451903530140172288) + 0) = pow2 (- 67 - 52) * of_int (6646139978924579)"
    by (rule round_double_nearest) (simp_all add: pow2_def)
  then show ?thesis
    by (simp add: plus_double_def short_sum_def zero_double_def pow2_def)
qed

lemma double_sqrt_short_sum: "sqrt_double short_sum = (double_1e_10 :: double)"
proof -
  have "round_double (sqrt (6646139978924579 / 664613997892457936451903530140172288)) = pow2 (- 34 - 52) * of_int (7737125245533627)"
    by (rule round_double_sqrt) (simp_all add: pow2_def power2_eq_square)
  then show ?thesis
    by (simp add: double_1e_10_def short_sum_def sqrt_double_def pow2_def)
qed

lemma round_double_1e_10: "Double (round_double (1 / 10 ^ 10)) = double_1e_10"
proof -
  have "round_double (1 / 10 ^ 10) = pow2 (- 34 - 52) * of_int (7737125245533627)"
    by (rule round_double_nearest) (simp_all add: pow2_def)
  then show ?thesis
    by (simp add: double_1e_10_def pow2_def)
qed







text \<open>The inputs of the concrete computations are doubles.\<close>

lemma representable_tiny_force: "representable (val tiny_force)"
proof -
  have "round_double (- (1 / 1152921504606846976)) = pow2 (- 60 - 52) * of_int (- 4503599627370496)"
    by (rule round_double_nearest) (simp_all add: pow2_def)
  then show ?thesis
    by (simp add: representable_def tiny_force_def pow2_def)
qed

lemma representable_big_force: "representable (val big_force)"
proof -
  have "round_double 10000000000000000 = pow2 (53 - 52) * of_int (5000000000000000)"
    by (rule round_double_nearest) (simp_all add: pow2_def)
  then show ?thesis
    by (simp add: representable_def big_force_def pow2_def)
qed

lemma representable_short_x: "representable (val short_x)"
proof -
  have "round_double (94646678708213 / 2417851639229258349412352) = pow2 (- 35 - 52) * of_int (6057387437325632)"
    by (rule round_double_nearest) (simp_all add: pow2_def)
  then show ?thesis
    by (simp add: representable_def short_x_def pow2_def)
qed

lemma representable_short_y: "representable (val short_y)"
proof -
  have "round_double (7119699531834625 / 77371252455336267181195264) = pow2 (- 34 - 52) * of_int (7119699531834625)"
    by (rule round_double_nearest) (simp_all add: pow2_def)
  then show ?thesis
    by (simp add: representable_def short_y_def pow2_def)
qed

lemma representable_double_1e_10: "representable (val double_1e_10)"
proof -
  have "round_double (7737125245533627 / 77371252455336267181195264) = pow2 (- 34 - 52) * of_int (7737125245533627)"
    by (rule round_double_nearest) (simp_all add: pow2_def)
  then show ?thesis
    by (simp add: representable_def double_1e_10_def pow2_def)
qed

section \<open>Properties of the bound manager\<close>

lemma for_each_single: "for_each body [j] s = body j s"
  by (cases "body j s") (simp_all add: bind_error_def)

lemma updateLimit_at_closed:
  "updateLimit_at j s =
     (if j < length (m_lambdaMin s) \<and> j < length (d_force s) \<and> j < length (m_lambdaMax s)
      then Inr (s\<lparr>m_lambdaMin := (m_lambdaMin s)[j := recentred_min s (m_lambdaMin s ! j) (d_force s ! j)],
                  m_lambdaMax := (m_lambdaMax s)[j := recentred_max s (m_lambdaMax s ! j) (d_force s ! j)]\<rparr>)
      else Inl OutOfRange)"
  by (simp add: updateLimit_at_def vector_read_def bind_error_def recentred_min_def recentred_max_def Let_def)

lemma recentred_bounds_update [simp]:
  "recentred_min (s\<lparr>m_lambdaMin := a\<rparr>) = recentred_min s"
  "recentred_min (s\<lparr>m_lambdaMax := b\<rparr>) = recentred_min s"
  "recentred_max (s\<lparr>m_lambdaMin := a\<rparr>) = recentred_max s"
  "recentred_max (s\<lparr>m_lambdaMax := b\<rparr>) = recentred_max s"
  by (simp_all add: recentred_min_def recentred_max_def fun_eq_iff)

lemma for_each_updateLimit_at:
  "\<forall>j\<in>set js. j < length (m_lambdaMin s) \<and> j < length (d_force s) \<and> j < length (m_lambdaMax s) \<Longrightarrow>
   for_each updateLimit_at js s =
     Inr (s\<lparr>m_lambdaMin := recentre_all (recentred_min s) (d_force s) js (m_lambdaMin s),
             m_lambdaMax := recentre_all (recentred_max s) (d_force s) js (m_lambdaMax s)\<rparr>)"
proof (induction js arbitrary: s)
  case Nil
  then show ?case by (simp add: recentre_all_def)
next
  case (Cons j js)
  let ?s' = "s\<lparr>m_lambdaMin := (m_lambdaMin s)[j := recentred_min s (m_lambdaMin s ! j) (d_force s ! j)],
                  m_lambdaMax := (m_lambdaMax s)[j := recentred_max s (m_lambdaMax s ! j) (d_force s ! j)]\<rparr>"
  have step: "updateLimit_at j s = Inr ?s'"
    using Cons.prems by (simp add: updateLimit_at_closed)
  have "\<forall>k\<in>set js. k < length (m_lambdaMin ?s') \<and> k < length (d_force ?s') \<and> k < length (m_lambdaMax ?s')"
    using Cons.prems by simp
  from Cons.IH [OF this] show ?case
    by (simp add: step bind_error_def recentre_all_def)
qed

lemma for_each_updateLimit_at_fail:
  "\<not> (\<forall>j\<in>set js. j < length (m_lambdaMin s) \<and> j < length (d_force s) \<and> j < length (m_lambdaMax s)) \<Longrightarrow>
   for_each updateLimit_at js s = Inl OutOfRange"
proof (induction js arbitrary: s)
  case Nil
  then show ?case by simp
next
  case (Cons j js)
  show ?case
  proof (cases "j < length (m_lambdaMin s) \<and> j < length (d_force s) \<and> j < length (m_lambdaMax s)")
    case False
    then have "updateLimit_at j s = Inl OutOfRange"
      by (simp add: updateLimit_at_closed)
    then show ?thesis by (simp add: bind_error_def)
  next
    case True
    let ?s' = "s\<lparr>m_lambdaMin := (m_lambdaMin s)[j := recentred_min s (m_lambdaMin s ! j) (d_force s ! j)],
                  m_lambdaMax := (m_lambdaMax s)[j := recentred_max s (m_lambdaMax s ! j) (d_force s ! j)]\<rparr>"
    have step: "updateLimit_at j s = Inr ?s'"
      using True by (simp add: updateLimit_at_closed)
    have "\<not> (\<forall>k\<in>set js. k < length (m_lambdaMin ?s') \<and> k < length (d_force ?s') \<and> k < length (m_lambdaMax ?s'))"
      using Cons.prems True by simp
    from Cons.IH [OF this] show ?thesis
      by (simp add: step bind_error_def)
  qed
qed

lemma updateLimit_closed:
  "updateLimit s =
     (if isSet (d_maxForceVariation s)
      then if axes_in_range s
           then Inr (s\<lparr>m_lambdaMax := recentre_all (recentred_max s) (d_force s) (axes s) (broadcast_max s),
                       m_lambdaMin := recentre_all (recentred_min s) (d_force s) (axes s) (broadcast_min s)\<rparr>)
           else Inl OutOfRange
      else Inr (s\<lparr>m_lambdaMax := broadcast_max s, m_lambdaMin := broadcast_min s\<rparr>))"
proof -
  let ?s2 = "s\<lparr>m_lambdaMax := broadcast_max s, m_lambdaMin := broadcast_min s\<rparr>"
  have pre: "updateLimit s =
     (if isSet (d_maxForceVariation s)
      then (if 1 < m_dim s then for_each updateLimit_at [0..<total_size] ?s2
            else updateLimit_at 0 ?s2)
      else Inr ?s2)"
    by (simp add: updateLimit_def broadcast_max_def broadcast_min_def Let_def)
  have loop: "(if 1 < m_dim s then for_each updateLimit_at [0..<total_size] ?s2
            else updateLimit_at 0 ?s2) = for_each updateLimit_at (axes s) ?s2"
    by (simp only: axes_def for_each_single split: if_splits) simp
  have len: "length (broadcast_max s) = length (m_lambdaMax s)"
     "length (broadcast_min s) = length (m_lambdaMin s)"
    by (simp_all add: broadcast_max_def broadcast_min_def)
  show ?thesis
  proof (cases "axes_in_range s")
    case True
    then have "\<forall>j\<in>set (axes s). j < length (m_lambdaMin ?s2) \<and> j < length (d_force ?s2) \<and> j < length (m_lambdaMax ?s2)"
      by (simp add: axes_in_range_def len)
    from for_each_updateLimit_at [OF this]
    have "for_each updateLimit_at (axes s) ?s2 =
        Inr (s\<lparr>m_lambdaMax := recentre_all (recentred_max s) (d_force s) (axes s) (broadcast_max s),
                       m_lambdaMin := recentre_all (recentred_min s) (d_force s) (axes s) (broadcast_min s)\<rparr>)"
      by simp
    with True show ?thesis
      by (simp only: pre loop if_True)
  next
    case False
    then have "\<not> (\<forall>j\<in>set (axes s). j < length (m_lambdaMin ?s2) \<and> j < length (d_force ?s2) \<and> j < length (m_lambdaMax ?s2))"
      by (simp add: axes_in_range_def len)
    from for_each_updateLimit_at_fail [OF this] False show ?thesis
      by (simp only: pre loop if_False)
  qed
qed

lemma recentre_all_length [simp]: "length (recentre_all g force js xs) = length xs"
  unfolding recentre_all_def by (induction js arbitrary: xs) simp_all

lemma recentre_all_nth:
  "distinct js \<Longrightarrow> i < length xs \<Longrightarrow>
   recentre_all g force js xs ! i = (if i \<in> set js then g (xs ! i) (force ! i) else xs ! i)"
  unfolding recentre_all_def
proof (induction js arbitrary: xs)
  case Nil
  then show ?case by simp
next
  case (Cons j js)
  then show ?case by (cases "i = j") auto
qed

lemma broadcast_length [simp]:
  "length (broadcast_max s) = length (m_lambdaMax s)"
  "length (broadcast_min s) = length (m_lambdaMin s)"
  by (simp_all add: broadcast_max_def broadcast_min_def)

lemma distinct_axes [simp]: "distinct (axes s)"
  by (simp add: axes_def)

lemma ceiling_fixpoint:
  assumes "distinct js"
  shows "recentre_all (recentred_max s) force js
           (if isSet (d_maxForce s)
            then map (\<lambda>_. getValue (d_maxForce s)) (recentre_all (recentred_max s) force js (broadcast_max s))
            else recentre_all (recentred_max s) force js (broadcast_max s)) =
         recentre_all (recentred_max s) force js (broadcast_max s)"
  using assms
  by (intro nth_equalityI) (auto simp: recentre_all_nth recentred_max_def broadcast_max_def)

lemma floor_fixpoint:
  assumes "distinct js"
  shows "recentre_all (recentred_min s) force js
           (if isSet (d_minForce s)
            then map (\<lambda>_. getValue (d_minForce s)) (recentre_all (recentred_min s) force js (broadcast_min s))
            else recentre_all (recentred_min s) force js (broadcast_min s)) =
         recentre_all (recentred_min s) force js (broadcast_min s)"
  using assms
  by (intro nth_equalityI) (auto simp: recentre_all_nth recentred_min_def broadcast_min_def)

lemma updateLimit_fixpoint:
  assumes "updateLimit s = Inr s'"
  shows "updateLimit s' = Inr s'"
proof (cases "isSet (d_maxForceVariation s)")
  case False
  with assms have s': "s' = s\<lparr>m_lambdaMax := broadcast_max s, m_lambdaMin := broadcast_min s\<rparr>"
    by (simp add: updateLimit_closed)
  have "broadcast_max s' = broadcast_max s" "broadcast_min s' = broadcast_min s"
    by (simp_all add: s' broadcast_max_def broadcast_min_def)
  then show ?thesis
    using False by (simp add: updateLimit_closed [of s']) (simp add: s')
next
  case True
  with assms have range: "axes_in_range s"
    by (simp add: updateLimit_closed split: if_splits)
  with True assms have s': "s' = s\<lparr>m_lambdaMax := recentre_all (recentred_max s) (d_force s) (axes s) (broadcast_max s),
                       m_lambdaMin := recentre_all (recentred_min s) (d_force s) (axes s) (broadcast_min s)\<rparr>"
    by (simp add: updateLimit_closed)
  have ax: "axes s' = axes s" by (simp add: s' axes_def)
  have range': "axes_in_range s'"
    using range by (simp add: axes_in_range_def ax) (simp add: s')
  have bmax: "broadcast_max s' = (if isSet (d_maxForce s)
            then map (\<lambda>_. getValue (d_maxForce s)) (recentre_all (recentred_max s) (d_force s) (axes s) (broadcast_max s))
            else recentre_all (recentred_max s) (d_force s) (axes s) (broadcast_max s))"
    by (simp add: s' broadcast_max_def)
  have bmin: "broadcast_min s' = (if isSet (d_minForce s)
            then map (\<lambda>_. getValue (d_minForce s)) (recentre_all (recentred_min s) (d_force s) (axes s) (broadcast_min s))
            else recentre_all (recentred_min s) (d_force s) (axes s) (broadcast_min s))"
    by (simp add: s' broadcast_min_def)
  have rec: "recentred_max s' = recentred_max s" "recentred_min s' = recentred_min s"
    "d_force s' = d_force s" "isSet (d_maxForceVariation s') = isSet (d_maxForceVariation s)"
    by (simp_all add: s')
  have "updateLimit s' = Inr (s'\<lparr>m_lambdaMax := recentre_all (recentred_max s') (d_force s') (axes s') (broadcast_max s'),
                       m_lambdaMin := recentre_all (recentred_min s') (d_force s') (axes s') (broadcast_min s')\<rparr>)"
    using True range' by (simp add: updateLimit_closed [of s'] rec)
  also have "\<dots> = Inr s'"
    unfolding rec ax bmax bmin
    by (simp only: ceiling_fixpoint [OF distinct_axes] floor_fixpoint [OF distinct_axes]) (simp add: s')
  finally show ?thesis .
qed

lemma initialised_axes_in_range: "initialised s \<Longrightarrow> axes_in_range s"
  by (auto simp: initialised_def axes_in_range_def axes_def total_size_def)

lemma initialised_fixed: "initialised fixed_actuator"
  by (simp add: initialised_def fixed_actuator_def)

lemma initialised_free: "initialised free_actuator"
  by (simp add: initialised_def fixed_actuator_def free_actuator_def total_size_def)

lemma updateLimit_fixed_closed:
  assumes "m_dim s = 1"
    and "isSet (d_maxForce s)" and "isSet (d_minForce s)" and "isSet (d_maxForceVariation s)"
    and "m_lambdaMin s \<noteq> []" and "m_lambdaMax s \<noteq> []" and "d_force s \<noteq> []"
  shows "updateLimit s =
     Inr (s\<lparr>m_lambdaMax :=
               (map (\<lambda>_. getValue (d_maxForce s)) (m_lambdaMax s))
                 [0 := if getValue (d_maxForceVariation s) \<le> \<bar>getValue (d_maxForce s) - d_force s ! 0\<bar>
                       then d_force s ! 0 + getValue (d_maxForceVariation s)
                       else getValue (d_maxForce s)],
             m_lambdaMin :=
               (map (\<lambda>_. getValue (d_minForce s)) (m_lambdaMin s))
                 [0 := if getValue (d_maxForceVariation s) \<le> \<bar>getValue (d_minForce s) - d_force s ! 0\<bar>
                       then d_force s ! 0 - getValue (d_maxForceVariation s)
                       else getValue (d_minForce s)]\<rparr>)"
proof -
  have "axes s = [0]" using assms(1) by (simp add: axes_def)
  moreover have "axes_in_range s"
    using assms by (simp add: axes_in_range_def \<open>axes s = [0]\<close>)
  ultimately show ?thesis
    using assms
    by (simp add: updateLimit_closed recentre_all_def broadcast_max_def broadcast_min_def
        recentred_max_def recentred_min_def)
qed

text \<open>
  Claim C1, as amended. On a fixed-direction actuator (dimension 1) with \<open>maxForce\<close>,
  \<open>minForce\<close> and \<open>maxForceVariation\<close> all set, \<open>updateLimit\<close> first writes
  \<open>maxForce\<close> into every entry of \<open>lambdaMax\<close> and \<open>minForce\<close> into every entry of
  \<open>lambdaMin\<close>, and then re-centres entry 0 of each bound exactly when the absolute
  value of the difference between that bound and the force, as \<open>Real\<close> computes it,
  is at least the variation; the re-centred bound is the force plus or minus the
  variation, again as \<open>Real\<close> computes it. The statement holds for every scalar type.
  In double precision, with the bounds 10 and -10, the variation 1 and the force 3,
  the witness gives \<open>lambdaMin = [2]\<close> and \<open>lambdaMax = [4]\<close>.
\<close>

theorem updateLimit_fixed_all_set:
  assumes "m_dim s = 1"
    and "isSet (d_maxForce s)" and "isSet (d_minForce s)" and "isSet (d_maxForceVariation s)"
    and "m_lambdaMin s \<noteq> []" and "m_lambdaMax s \<noteq> []" and "d_force s \<noteq> []"
  shows "updateLimit s =
     Inr (s\<lparr>m_lambdaMax :=
               (map (\<lambda>_. getValue (d_maxForce s)) (m_lambdaMax s))
                 [0 := if getValue (d_maxForceVariation s) \<le> \<bar>getValue (d_maxForce s) - d_force s ! 0\<bar>
                       then d_force s ! 0 + getValue (d_maxForceVariation s)
                       else getValue (d_maxForce s)],
             m_lambdaMin :=
               (map (\<lambda>_. getValue (d_minForce s)) (m_lambdaMin s))
                 [0 := if getValue (d_maxForceVariation s) \<le> \<bar>getValue (d_minForce s) - d_force s ! 0\<bar>
                       then d_force s ! 0 - getValue (d_maxForceVariation s)
                       else getValue (d_minForce s)]\<rparr>)"
  using assms by (rule updateLimit_fixed_closed)

theorem updateLimit_fixed_all_set_witness:
  "updateLimit double_rate_limited =
     Inr (double_rate_limited\<lparr>m_lambdaMax := [Double 4], m_lambdaMin := [Double 2]\<rparr>)"
  using updateLimit_fixed_all_set [of double_rate_limited]
  by (simp add: double_rate_limited_def double_actuator_def abs_double_def less_eq_double_def
      double_10_minus_3 double_3_plus_1 double_neg10_minus_3 double_3_minus_1)

text \<open>
  The claim as stated, with the difference taken exactly, fails in double precision.
  With \<open>maxForce = -1\<close>, \<open>minForce = -10\<close>, the variation 1 and the force
  \<open>-2\<^sup>-\<^sup>6\<^sup>0\<close>, the ceiling differs from the force by \<open>1 - 2\<^sup>-\<^sup>6\<^sup>0\<close>, less than the
  variation, yet the computed difference rounds to 1 and \<open>updateLimit\<close> moves the
  ceiling from -1 to 1.
\<close>

theorem updateLimit_exact_difference_counterexample:
  "updateLimit near_ceiling_actuator =
     Inr (near_ceiling_actuator\<lparr>m_lambdaMax := [Double 1], m_lambdaMin := [Double (- 1)]\<rparr>) \<and>
   \<bar>val (getValue (d_maxForce near_ceiling_actuator)) - val (d_force near_ceiling_actuator ! 0)\<bar>
     < val (getValue (d_maxForceVariation near_ceiling_actuator))"
proof -
  have "updateLimit near_ceiling_actuator =
     Inr (near_ceiling_actuator\<lparr>m_lambdaMax := [Double 1], m_lambdaMin := [Double (- 1)]\<rparr>)"
    using updateLimit_fixed_closed [of near_ceiling_actuator]
    by (simp add: near_ceiling_actuator_def double_actuator_def abs_double_def less_eq_double_def
        double_neg1_minus_tiny double_tiny_plus_1 double_neg10_minus_tiny double_tiny_minus_1)
  moreover have "\<bar>val (getValue (d_maxForce near_ceiling_actuator)) - val (d_force near_ceiling_actuator ! 0)\<bar>
     < val (getValue (d_maxForceVariation near_ceiling_actuator))"
    by (simp add: near_ceiling_actuator_def double_actuator_def tiny_force_def)
  ultimately show ?thesis by simp
qed

lemma updateLimit_band_closed:
  assumes "initialised s" and "isSet (d_maxForceVariation s)"
    and "\<not> isSet (d_minForce s)" and "\<not> isSet (d_maxForce s)"
  shows "\<exists>s'. updateLimit s = Inr s' \<and> d_force s' = d_force s \<and> m_dim s' = m_dim s \<and>
           (\<forall>j<m_dim s.
              m_lambdaMax s' ! j = d_force s ! j + getValue (d_maxForceVariation s) \<and>
              m_lambdaMin s' ! j = d_force s ! j - getValue (d_maxForceVariation s))"
proof -
  let ?s' = "s\<lparr>m_lambdaMax := recentre_all (recentred_max s) (d_force s) (axes s) (broadcast_max s),
                       m_lambdaMin := recentre_all (recentred_min s) (d_force s) (axes s) (broadcast_min s)\<rparr>"
  have upd: "updateLimit s = Inr ?s'"
    using assms(1,2) by (simp add: updateLimit_closed initialised_axes_in_range)
  have mem: "j \<in> set (axes s)" if "j < m_dim s" for j
    using that assms(1) by (auto simp: initialised_def axes_def)
  have len: "length (m_lambdaMax s) = m_dim s" "length (m_lambdaMin s) = m_dim s"
    using assms(1) by (simp_all add: initialised_def)
  have "m_lambdaMax ?s' ! j = d_force s ! j + getValue (d_maxForceVariation s) \<and>
        m_lambdaMin ?s' ! j = d_force s ! j - getValue (d_maxForceVariation s)"
    if "j < m_dim s" for j
    using that mem [OF that] assms(3,4) len
    by (simp add: recentre_all_nth recentred_max_def recentred_min_def)
  then show ?thesis
    using upd by simp
qed

text \<open>In exact arithmetic the band lies exactly the variation away from the force.\<close>

lemma updateLimit_band_exact:
  fixes s :: "real ForcePointActuator"
  assumes "initialised s" and "isSet (d_maxForceVariation s)"
    and "\<not> isSet (d_minForce s)" and "\<not> isSet (d_maxForce s)"
  shows "\<exists>s'. updateLimit s = Inr s' \<and>
           (\<forall>j<m_dim s.
              m_lambdaMax s' ! j - d_force s' ! j = getValue (d_maxForceVariation s) \<and>
              d_force s' ! j - m_lambdaMin s' ! j = getValue (d_maxForceVariation s))"
  using updateLimit_band_closed [OF assms] by auto

text \<open>
  Claim C2, as amended. With \<open>maxForceVariation\<close> set and neither \<open>minForce\<close> nor
  \<open>maxForce\<close> set, \<open>updateLimit\<close> on an initialised actuator returns, and afterwards,
  on every axis below the dimension, the ceiling is the sum of the force and the
  variation and the floor is the difference of the force and the variation, as
  \<open>Real\<close> computes them. The statement holds for every scalar type; the ceiling and
  the floor lie exactly the variation away from the force when that sum and that
  difference are exact.
\<close>

theorem updateLimit_band_without_bounds:
  assumes "initialised s" and "isSet (d_maxForceVariation s)"
    and "\<not> isSet (d_minForce s)" and "\<not> isSet (d_maxForce s)"
  shows "\<exists>s'. updateLimit s = Inr s' \<and> d_force s' = d_force s \<and> m_dim s' = m_dim s \<and>
           (\<forall>j<m_dim s.
              m_lambdaMax s' ! j = d_force s ! j + getValue (d_maxForceVariation s) \<and>
              m_lambdaMin s' ! j = d_force s ! j - getValue (d_maxForceVariation s))"
  using assms by (rule updateLimit_band_closed)

theorem updateLimit_band_without_bounds_witness:
  "initialised double_band_actuator \<and>
   (\<exists>s'. updateLimit double_band_actuator = Inr s' \<and>
      m_lambdaMax s' ! 0 = Double 4 \<and> m_lambdaMin s' ! 0 = Double 2)"
proof -
  have init: "initialised double_band_actuator"
    by (simp add: initialised_def double_band_actuator_def double_actuator_def)
  have cfg: "isSet (d_maxForceVariation double_band_actuator)"
    "\<not> isSet (d_minForce double_band_actuator)" "\<not> isSet (d_maxForce double_band_actuator)"
    by (simp_all add: double_band_actuator_def double_actuator_def)
  have v: "m_dim double_band_actuator = 1" "d_force double_band_actuator = [Double 3]"
    "getValue (d_maxForceVariation double_band_actuator) = Double 1"
    by (simp_all add: double_band_actuator_def double_actuator_def)
  from updateLimit_band_without_bounds [OF init cfg]
  obtain s' where upd: "updateLimit double_band_actuator = Inr s'"
    and band: "\<forall>j<m_dim double_band_actuator.
              m_lambdaMax s' ! j = d_force double_band_actuator ! j
                + getValue (d_maxForceVariation double_band_actuator) \<and>
              m_lambdaMin s' ! j = d_force double_band_actuator ! j
                - getValue (d_maxForceVariation double_band_actuator)"
    by blast
  from band have "m_lambdaMax s' ! 0 = Double 4 \<and> m_lambdaMin s' ! 0 = Double 2"
    by (simp add: v double_3_plus_1 double_3_minus_1)
  with init upd show ?thesis by blast
qed

text \<open>
  The claim as stated fails in double precision. With the variation 1 and the force
  \<open>10\<^sup>1\<^sup>6\<close>, the sum and the difference both round to \<open>10\<^sup>1\<^sup>6\<close>: the ceiling and
  the floor equal the force, and neither lies the variation away from it.
\<close>

theorem updateLimit_band_counterexample:
  "initialised big_force_actuator \<and>
   updateLimit big_force_actuator =
     Inr (big_force_actuator\<lparr>m_lambdaMax := [big_force], m_lambdaMin := [big_force]\<rparr>) \<and>
   d_force big_force_actuator = [big_force] \<and>
   getValue (d_maxForceVariation big_force_actuator) = Double 1 \<and>
   big_force - big_force = Double 0 \<and>
   val big_force - val big_force \<noteq> val (Double 1)"
proof -
  have init: "initialised big_force_actuator"
    by (simp add: initialised_def big_force_actuator_def double_actuator_def)
  have cfg: "isSet (d_maxForceVariation big_force_actuator)"
    "\<not> isSet (d_minForce big_force_actuator)" "\<not> isSet (d_maxForce big_force_actuator)"
    by (simp_all add: big_force_actuator_def double_actuator_def)
  have "updateLimit big_force_actuator =
     Inr (big_force_actuator\<lparr>m_lambdaMax := [big_force], m_lambdaMin := [big_force]\<rparr>)"
    using cfg
    by (simp add: updateLimit_closed axes_in_range_def axes_def recentre_all_def
        broadcast_max_def broadcast_min_def recentred_max_def recentred_min_def
        big_force_actuator_def double_actuator_def double_big_plus_1 double_big_minus_1)
  then show ?thesis
    using init
    by (simp add: double_big_minus_big) (simp add: big_force_actuator_def double_actuator_def)
qed

lemma updateLimit_initialised:
  "initialised s \<Longrightarrow> \<exists>s'. updateLimit s = Inr s'"
  by (simp add: updateLimit_closed initialised_axes_in_range)

text \<open>
  Claim C7. \<open>updateLimit\<close> is idempotent: whenever a call returns, a second call on
  the resulting object, with the force and the configuration unchanged, returns the
  same object, so \<open>lambdaMin\<close> and \<open>lambdaMax\<close> keep their values. On an initialised
  actuator the first call does return.
\<close>

theorem updateLimit_idempotent:
  "(updateLimit s = Inr s' \<longrightarrow> updateLimit s' = Inr s') \<and>
   (initialised s \<longrightarrow> (\<exists>s1. updateLimit s = Inr s1 \<and> updateLimit s1 = Inr s1))"
  using updateLimit_fixpoint updateLimit_initialised by blast

theorem updateLimit_idempotent_witness:
  "updateLimit rate_limited_actuator =
     Inr (rate_limited_actuator\<lparr>m_lambdaMax := [4], m_lambdaMin := [2]\<rparr>) \<and>
   updateLimit (rate_limited_actuator\<lparr>m_lambdaMax := [4], m_lambdaMin := [2]\<rparr>) =
     Inr (rate_limited_actuator\<lparr>m_lambdaMax := [4], m_lambdaMin := [2]\<rparr>)"
proof -
  have first: "updateLimit rate_limited_actuator =
     Inr (rate_limited_actuator\<lparr>m_lambdaMax := [4], m_lambdaMin := [2]\<rparr>)"
    by (simp add: updateLimit_closed axes_in_range_def axes_def recentre_all_def
        broadcast_max_def broadcast_min_def recentred_max_def recentred_min_def
        rate_limited_actuator_def fixed_actuator_def)
  with updateLimit_idempotent [of rate_limited_actuator
      "rate_limited_actuator\<lparr>m_lambdaMax := [4], m_lambdaMin := [2]\<rparr>"]
  show ?thesis by blast
qed




section \<open>Properties of the configuration resolver\<close>

lemma resize_length [simp]: "length (resize n x xs) = n"
  by (simp add: resize_def)

lemma initData_closed:
  "initData lib s =
     (if isSet (d_initForce s) \<and> m_lambdaInit s = [] then Inl OutOfRange
      else Inr (after_initData lib s))"
  by (simp add: initData_def after_initData_def vector_write_def bind_error_def resize_def Let_def)

lemma initialised_after_initData: "initialised (after_initData lib s)"
  by (simp add: initialised_def after_initData_def Let_def)

lemma updateLimit_keeps:
  assumes "updateLimit s = Inr s'"
  shows "d_force s' = d_force s" and "m_dim s' = m_dim s" and "d_direction s' = d_direction s"
    and "m_lambdaInit s' = m_lambdaInit s" and "d_displacement s' = d_displacement s"
    and "length (m_lambdaMax s') = length (m_lambdaMax s)"
    and "length (m_lambdaMin s') = length (m_lambdaMin s)"
    and "d_initForce s' = d_initForce s"
  using assms by (auto simp: updateLimit_closed split: if_splits)

lemma initLimit_closed:
  "initLimit s =
     updateLimit (s\<lparr>m_hasLambdaMax := (isSet (d_maxForce s) \<or> isSet (d_maxForceVariation s) \<or> m_hasLambdaMax s),
                     m_hasLambdaMin := (isSet (d_minForce s) \<or> isSet (d_maxForceVariation s) \<or> m_hasLambdaMin s)\<rparr>)"
  by (simp add: initLimit_def Let_def)

lemma initLimit_initialised:
  assumes "initialised s"
  shows "\<exists>s'. initLimit s = Inr s' \<and> initialised s' \<and> d_force s' = d_force s \<and>
           m_dim s' = m_dim s \<and> d_direction s' = d_direction s"
proof -
  let ?s1 = "s\<lparr>m_hasLambdaMax := (isSet (d_maxForce s) \<or> isSet (d_maxForceVariation s) \<or> m_hasLambdaMax s),
                     m_hasLambdaMin := (isSet (d_minForce s) \<or> isSet (d_maxForceVariation s) \<or> m_hasLambdaMin s)\<rparr>"
  have "initialised ?s1" using assms by (simp add: initialised_def)
  from updateLimit_initialised [OF this] obtain s' where upd: "updateLimit ?s1 = Inr s'" ..
  from updateLimit_keeps [OF upd] \<open>initialised ?s1\<close>
  have "initialised s'" "d_force s' = d_force s" "m_dim s' = m_dim s" "d_direction s' = d_direction s"
    by (simp_all add: initialised_def)
  with upd show ?thesis by (simp add: initLimit_closed)
qed

lemma init_returns:
  assumes "isSet (d_initForce s) \<longrightarrow> m_lambdaInit s \<noteq> []"
  shows "\<exists>s'. init lib s = Inr s' \<and> reinit lib s = Inr s' \<and> initialised s' \<and>
           d_force s' = d_force (after_initData lib s) \<and> m_dim s' = m_dim (after_initData lib s) \<and>
           d_direction s' = d_direction s"
proof -
  from assms have "initData lib s = Inr (after_initData lib s)"
    by (auto simp: initData_closed)
  moreover from initLimit_initialised [OF initialised_after_initData [of lib s]]
  obtain s' where "initLimit (after_initData lib s) = Inr s'" "initialised s'"
    "d_force s' = d_force (after_initData lib s)" "m_dim s' = m_dim (after_initData lib s)"
    "d_direction s' = d_direction (after_initData lib s)"
    by blast
  moreover have "d_direction (after_initData lib s) = d_direction s"
    by (simp add: after_initData_def Let_def)
  ultimately show ?thesis
    by (simp add: init_def reinit_def bind_error_def)
qed

lemma lit_1e_10_double: "lit_1e_10 double_library = double_1e_10"
  using round_double_1e_10 by (simp add: double_library_def)

lemma norm_double_zero: "norm_of double_library (Vec3 0 0 0) = 0"
  by (simp add: double_library_def double_0_times_0 double_0_plus_0 double_sqrt_0)

lemma norm_double_unit: "norm_of double_library (Vec3 1 0 0) = 1"
  by (simp add: double_library_def double_1_times_1 double_0_times_0 double_1_plus_0
      double_sqrt_1)

text \<open>
  Claim C3, as amended. \<open>init\<close> and \<open>reinit\<close> leave the dimension at 3 when the
  norm of the configured direction, as the vector library computes it in \<open>Real\<close>,
  compares below the value of the literal \<open>1e-10\<close>, and at 1 otherwise, for every
  direction, every library norm and every scalar type. Both calls return whenever
  the write to \<open>m_lambdaInit[0]\<close> is in range, that is, unless \<open>initForce\<close> is set while
  \<open>m_lambdaInit\<close> is empty on entry.
\<close>

theorem init_dimension:
  assumes "isSet (d_initForce s) \<longrightarrow> m_lambdaInit s \<noteq> []"
  shows "\<exists>s'. init lib s = Inr s' \<and> reinit lib s = Inr s' \<and> d_direction s' = d_direction s \<and>
           m_dim s' = (if norm_of lib (d_direction s) < lit_1e_10 lib then 3 else 1)"
  using init_returns [OF assms, of lib] by (auto simp: after_initData_def total_size_def Let_def)

theorem init_dimension_witness:
  "m_lambdaInit double_free_actuator \<noteq> [] \<and>
   (\<exists>s'. init double_library double_free_actuator = Inr s' \<and> m_dim s' = 3) \<and>
   m_lambdaInit double_rate_limited \<noteq> [] \<and>
   (\<exists>s'. init double_library double_rate_limited = Inr s' \<and> m_dim s' = 1)"
proof -
  have a: "m_lambdaInit double_free_actuator \<noteq> []"
    and b: "m_lambdaInit double_rate_limited \<noteq> []"
    by (simp_all add: double_free_actuator_def double_rate_limited_def double_actuator_def)
  have "norm_of double_library (d_direction double_free_actuator) = 0"
    by (simp add: double_free_actuator_def double_actuator_def norm_double_zero)
  then have c: "norm_of double_library (d_direction double_free_actuator) < lit_1e_10 double_library"
    by (simp add: lit_1e_10_double less_double_def zero_double_def double_1e_10_def)
  have "norm_of double_library (d_direction double_rate_limited) = 1"
    by (simp add: double_rate_limited_def double_actuator_def norm_double_unit)
  then have d: "\<not> norm_of double_library (d_direction double_rate_limited) < lit_1e_10 double_library"
    by (simp add: lit_1e_10_double less_double_def one_double_def double_1e_10_def)
  from init_dimension [of double_free_actuator double_library] a c
  have "\<exists>s'. init double_library double_free_actuator = Inr s' \<and> m_dim s' = 3" by auto
  moreover from init_dimension [of double_rate_limited double_library] b d
  have "\<exists>s'. init double_library double_rate_limited = Inr s' \<and> m_dim s' = 1" by auto
  ultimately show ?thesis using a b by blast
qed

text \<open>
  The claim as stated, with the Euclidean norm and the threshold taken exactly,
  fails in double precision. The direction
  \<open>(3.9144948834984616e-11, 9.201995968650734e-11, 0)\<close> has a Euclidean norm below
  \<open>10\<^sup>-\<^sup>1\<^sup>0\<close>, but its computed norm is the double \<open>1e-10\<close> itself, which is not below
  the threshold: \<open>init\<close> leaves the dimension at 1.
\<close>

theorem init_dimension_counterexample:
  "init double_library short_direction_actuator =
     Inr (short_direction_actuator\<lparr>d_force := [0], m_dim := 1, m_lambdaInit := [0],
            m_lambdaMax := [0], m_lambdaMin := [0]\<rparr>) \<and>
   d_direction short_direction_actuator = Vec3 short_x short_y 0 \<and>
   norm_exact (Vec3 (val short_x) (val short_y) (val 0)) < 1 / 10 ^ 10 \<and>
   norm_of double_library (Vec3 short_x short_y 0) = lit_1e_10 double_library"
proof -
  let ?s' = "short_direction_actuator\<lparr>d_force := [0], m_dim := 1, m_lambdaInit := [0],
            m_lambdaMax := [0], m_lambdaMin := [0]\<rparr>"
  have n: "norm_of double_library (Vec3 short_x short_y 0) = double_1e_10"
    by (simp add: double_library_def double_short_x_squared double_short_y_squared
        double_0_times_0 double_short_xx_plus_yy double_short_sum_plus_0 double_sqrt_short_sum)
  have "initData double_library short_direction_actuator = Inr ?s'"
    by (simp add: initData_closed after_initData_def Let_def n lit_1e_10_double less_double_def
        resize_def short_direction_actuator_def double_actuator_def)
  moreover have "initLimit ?s' = Inr ?s'"
    by (simp add: initLimit_closed updateLimit_closed broadcast_max_def broadcast_min_def
        short_direction_actuator_def double_actuator_def)
  ultimately have "init double_library short_direction_actuator = Inr ?s'"
    by (simp add: init_def bind_error_def)
  moreover have "norm_exact (Vec3 (val short_x) (val short_y) (val 0)) < 1 / 10 ^ 10"
  proof -
    have "sqrt (val short_x * val short_x + val short_y * val short_y + val 0 * val 0)
        < sqrt ((1 / 10 ^ 10)\<^sup>2)"
      unfolding real_sqrt_less_iff
      by (simp add: short_x_def short_y_def zero_double_def power2_eq_square)
    then show ?thesis by simp
  qed
  ultimately show ?thesis
    using n by (simp add: lit_1e_10_double) (simp add: short_direction_actuator_def double_actuator_def)
qed

text \<open>
  Claim C6. After \<open>init\<close> or \<open>reinit\<close> the vectors \<open>force\<close>, \<open>lambdaMin\<close>, \<open>lambdaMax\<close>
  and \<open>lambdaInit\<close> have the dimension as their length, and every entry of \<open>force\<close>
  is the value of \<open>initForce\<close> (0 when it was never set). Both calls return whenever
  the write to \<open>m_lambdaInit[0]\<close> is in range.
\<close>

theorem init_lengths:
  assumes "isSet (d_initForce s) \<longrightarrow> m_lambdaInit s \<noteq> []"
  shows "\<exists>s'. init lib s = Inr s' \<and> reinit lib s = Inr s' \<and>
           length (d_force s') = m_dim s' \<and> length (m_lambdaMin s') = m_dim s' \<and>
           length (m_lambdaMax s') = m_dim s' \<and> length (m_lambdaInit s') = m_dim s' \<and>
           d_force s' = replicate (m_dim s') (getValue (d_initForce s))"
  using init_returns [OF assms, of lib] by (auto simp: after_initData_def initialised_def Let_def)

theorem init_lengths_witness:
  "m_lambdaInit scenario_free_actuator \<noteq> [] \<and>
   (\<exists>s'. init exact_library scenario_free_actuator = Inr s' \<and> m_dim s' = 3 \<and>
      d_force s' = [2, 2, 2] \<and>
      length (m_lambdaMin s') = 3 \<and> length (m_lambdaMax s') = 3 \<and> length (m_lambdaInit s') = 3)"
proof -
  have a: "m_lambdaInit scenario_free_actuator \<noteq> []"
    and c: "norm_of exact_library (d_direction scenario_free_actuator) < lit_1e_10 exact_library"
    and v: "getValue (d_initForce scenario_free_actuator) = 2"
    by (simp_all add: scenario_free_actuator_def free_actuator_def fixed_actuator_def
        exact_library_def)
  from init_lengths [of scenario_free_actuator exact_library] a
  obtain s' where s': "init exact_library scenario_free_actuator = Inr s'"
      "length (d_force s') = m_dim s'" "length (m_lambdaMin s') = m_dim s'"
      "length (m_lambdaMax s') = m_dim s'" "length (m_lambdaInit s') = m_dim s'"
      "d_force s' = replicate (m_dim s') (getValue (d_initForce scenario_free_actuator))"
    by auto
  from init_returns [of scenario_free_actuator exact_library] a s'(1) c
  have "m_dim s' = 3" by (auto simp: after_initData_def total_size_def Let_def)
  with s' v a show ?thesis by (auto simp: numeral_3_eq_3)
qed

text \<open>
  The write \<open>m_lambdaInit[0] = d_initForce.getValue()\<close> of \<open>initData\<close> is out of range
  exactly when \<open>initForce\<close> is set and \<open>m_lambdaInit\<close> is empty on entry. Every
  \<open>initData\<close> that returns leaves \<open>m_lambdaInit\<close> non-empty, so the write is in range
  on each later run.
\<close>

lemma initData_out_of_range_iff:
  "initData lib s = Inl OutOfRange \<longleftrightarrow> isSet (d_initForce s) \<and> m_lambdaInit s = []"
  by (simp add: initData_closed)

lemma initData_leaves_lambdaInit_nonempty:
  assumes "initData lib s = Inr s'"
  shows "m_lambdaInit s' \<noteq> [] \<and> (\<exists>s''. initData lib s' = Inr s'')"
proof -
  from assms have s': "s' = after_initData lib s"
    by (simp add: initData_closed split: if_splits)
  have "length (m_lambdaInit (after_initData lib s)) = m_dim (after_initData lib s)"
    "0 < m_dim (after_initData lib s)"
    by (simp_all add: after_initData_def total_size_def Let_def)
  then have "m_lambdaInit s' \<noteq> []" by (auto simp: s')
  then show ?thesis by (simp add: initData_closed)
qed

section \<open>Properties of the result consumer\<close>

lemma store_force_closed:
  "store_force lambda j s =
     (if j < length lambda \<and> j < length (d_force s)
      then Inr (s\<lparr>d_force := (d_force s)[j := lambda ! j]\<rparr>) else Inl OutOfRange)"
  by (simp add: store_force_def vector_read_def vector_write_def bind_error_def)

lemma for_each_store_force:
  "\<forall>j\<in>set js. j < length lambda \<and> j < length (d_force s) \<Longrightarrow>
   for_each (store_force lambda) js s =
     Inr (s\<lparr>d_force := recentre_all (\<lambda>y l. l) lambda js (d_force s)\<rparr>)"
proof (induction js arbitrary: s)
  case Nil
  then show ?case by (simp add: recentre_all_def)
next
  case (Cons j js)
  have step: "store_force lambda j s = Inr (s\<lparr>d_force := (d_force s)[j := lambda ! j]\<rparr>)"
    using Cons.prems by (simp add: store_force_closed)
  have "\<forall>k\<in>set js. k < length lambda \<and> k < length (d_force (s\<lparr>d_force := (d_force s)[j := lambda ! j]\<rparr>))"
    using Cons.prems by simp
  from Cons.IH [OF this] show ?case
    by (simp add: step bind_error_def recentre_all_def)
qed

lemma for_each_store_force_fail:
  "\<not> (\<forall>j\<in>set js. j < length lambda \<and> j < length (d_force s)) \<Longrightarrow>
   for_each (store_force lambda) js s = Inl OutOfRange"
proof (induction js arbitrary: s)
  case Nil
  then show ?case by simp
next
  case (Cons j js)
  show ?case
  proof (cases "j < length lambda \<and> j < length (d_force s)")
    case False
    then have "store_force lambda j s = Inl OutOfRange"
      by (simp add: store_force_closed)
    then show ?thesis by (simp add: bind_error_def)
  next
    case True
    have step: "store_force lambda j s = Inr (s\<lparr>d_force := (d_force s)[j := lambda ! j]\<rparr>)"
      using True by (simp add: store_force_closed)
    have "\<not> (\<forall>k\<in>set js. k < length lambda \<and> k < length (d_force (s\<lparr>d_force := (d_force s)[j := lambda ! j]\<rparr>)))"
      using Cons.prems True by simp
    from Cons.IH [OF this] show ?thesis
      by (simp add: step bind_error_def)
  qed
qed

lemma storeResults_loop:
  "(if 1 < m_dim s then for_each (store_force lambda) [0..<total_size] s'
    else store_force lambda 0 s') = for_each (store_force lambda) (axes s) s'"
  by (simp only: axes_def for_each_single split: if_splits) simp

lemma storeResults_alt:
  "storeResults base s lambda delta =
     bind_error (vector_read delta 0) (\<lambda>d.
     bind_error (for_each (store_force lambda) (axes s) (s\<lparr>d_displacement := d\<rparr>))
       (\<lambda>s2. bind_error (updateLimit s2) (\<lambda>s3. base s3 lambda delta)))"
  by (simp only: storeResults_def storeResults_loop)

lemma copied_force:
  assumes "initialised s" and "m_dim s \<le> length lambda"
  shows "recentre_all (\<lambda>y l. l) lambda (axes s) (d_force s) = take (m_dim s) lambda"
proof (rule nth_equalityI)
  from assms show "length (recentre_all (\<lambda>y l. l) lambda (axes s) (d_force s)) = length (take (m_dim s) lambda)"
    by (simp add: initialised_def)
next
  fix i assume "i < length (recentre_all (\<lambda>y l. l) lambda (axes s) (d_force s))"
  then have i: "i < m_dim s" "i < length (d_force s)"
    using assms by (simp_all add: initialised_def)
  then have "i \<in> set (axes s)"
    using assms(1) by (auto simp: initialised_def axes_def split: if_splits)
  with i show "recentre_all (\<lambda>y l. l) lambda (axes s) (d_force s) ! i = take (m_dim s) lambda ! i"
    by (simp add: recentre_all_nth)
qed

lemma storeResults_closed:
  assumes "initialised s" and "delta \<noteq> []" and "m_dim s \<le> length lambda"
  shows "storeResults base s lambda delta =
     bind_error (updateLimit (s\<lparr>d_force := take (m_dim s) lambda, d_displacement := delta ! 0\<rparr>))
       (\<lambda>s3. base s3 lambda delta)"
proof -
  let ?s1 = "s\<lparr>d_displacement := delta ! 0\<rparr>"
  have "\<forall>j\<in>set (axes s). j < length lambda \<and> j < length (d_force ?s1)"
    using assms(1,3) by (auto simp: initialised_def axes_def total_size_def split: if_splits)
  from for_each_store_force [OF this]
  have "for_each (store_force lambda) (axes s) ?s1 =
      Inr (s\<lparr>d_force := take (m_dim s) lambda, d_displacement := delta ! 0\<rparr>)"
    by (simp add: copied_force [OF assms(1,3)])
  then show ?thesis
    using assms(2)
    by (simp add: storeResults_alt vector_read_def bind_error_def)
qed

lemma storeResults_empty_delta: "storeResults base s lambda [] = Inl OutOfRange"
  by (simp add: storeResults_def vector_read_def bind_error_def)

lemma storeResults_short_lambda:
  assumes "initialised s" and "length lambda < m_dim s"
  shows "storeResults base s lambda delta = Inl OutOfRange"
proof (cases "delta = []")
  case True
  then show ?thesis by (simp add: storeResults_empty_delta)
next
  case False
  let ?s1 = "s\<lparr>d_displacement := delta ! 0\<rparr>"
  have "\<not> (\<forall>j\<in>set (axes s). j < length lambda \<and> j < length (d_force ?s1))"
    using assms by (auto simp: initialised_def axes_def total_size_def split: if_splits)
  from for_each_store_force_fail [OF this] False show ?thesis
    by (simp add: storeResults_alt vector_read_def bind_error_def)
qed

lemma storeResults_state_initialised:
  assumes "initialised s" and "m_dim s \<le> length lambda"
  shows "initialised (s\<lparr>d_force := take (m_dim s) lambda, d_displacement := d\<rparr>)"
  using assms by (simp add: initialised_def)



section \<open>Properties of the constraint row builder\<close>

lemma for_each_addCol:
  assumes "m_state s = Some n"
  shows "m r = Some old \<Longrightarrow>
     for_each (addCol_if_valid s r dir) idxs m = Inr (m(r \<mapsto> old @ row_entries n idxs dir))"
proof (induction idxs arbitrary: m old)
  case Nil
  then show ?case by (simp add: row_entries_def map_upd_triv)
next
  case (Cons i idxs)
  show ?case
  proof (cases "i < n")
    case True
    have step: "addCol_if_valid s r dir i m = Inr (addCol r i dir m)"
      using assms True by (simp add: addCol_if_valid_def)
    have upd: "addCol r i dir m = m(r \<mapsto> old @ [(i, dir)])"
      using Cons.prems by (simp add: addCol_def)
    have "for_each (addCol_if_valid s r dir) (i # idxs) m =
        for_each (addCol_if_valid s r dir) idxs (addCol r i dir m)"
      by (simp add: step bind_error_def)
    also have "\<dots> = Inr ((addCol r i dir m)(r \<mapsto> (old @ [(i, dir)]) @ row_entries n idxs dir))"
      by (rule Cons.IH) (simp add: upd)
    also have "(addCol r i dir m)(r \<mapsto> (old @ [(i, dir)]) @ row_entries n idxs dir) =
        m(r \<mapsto> old @ row_entries n (i # idxs) dir)"
      using True by (simp add: upd row_entries_def)
    finally show ?thesis .
  next
    case False
    have step: "addCol_if_valid s r dir i m = Inr m"
      using assms False by (simp add: addCol_if_valid_def)
    have "for_each (addCol_if_valid s r dir) (i # idxs) m =
        for_each (addCol_if_valid s r dir) idxs m"
      by (simp add: step bind_error_def)
    also have "\<dots> = Inr (m(r \<mapsto> old @ row_entries n idxs dir))"
      by (rule Cons.IH) (rule Cons.prems)
    also have "row_entries n idxs dir = row_entries n (i # idxs) dir"
      using False by (simp add: row_entries_def)
    finally show ?thesis .
  qed
qed

lemma emit_row:
  assumes "m_state s = Some n"
  shows "for_each (addCol_if_valid s r dir) idxs (writeLine r m) =
     Inr (m(r \<mapsto> row_of m r @ row_entries n idxs dir))"
proof -
  have "(writeLine r m) r = Some (row_of m r)"
    by (simp add: writeLine_def row_of_def split: option.splits)
  from for_each_addCol [of s n "writeLine r m" r "row_of m r" dir idxs, OF assms this] show ?thesis
    by (simp add: writeLine_def split: option.splits)
qed

text \<open>In exact arithmetic the direction divided by its norm has norm 1.\<close>

lemma norm_exact_normalised:
  assumes "0 < norm_exact d"
  shows "norm_exact (divide_Deriv d (norm_exact d)) = 1"
proof (cases d)
  case (Vec3 x y z)
  let ?q = "x * x + y * y + z * z"
  have q: "0 < ?q"
    using assms Vec3 by (simp add: less_le)
  have sq: "sqrt ?q * sqrt ?q = ?q" using q by simp
  have gen: "x / c * (x / c) + y / c * (y / c) + z / c * (z / c) = ?q / (c * c)" for c :: real
    by (simp add: add_divide_distrib)
  have "x / sqrt ?q * (x / sqrt ?q) + y / sqrt ?q * (y / sqrt ?q) + z / sqrt ?q * (z / sqrt ?q)
      = ?q / ?q"
    by (simp only: gen sq)
  also have "\<dots> = 1" using q by simp
  finally show ?thesis
    using Vec3 by simp
qed


lemma axes_list: "[0..<total_size] = [0, 1, 2]"
  by (simp add: total_size_def upt_rec)

lemma free_row_closed:
  assumes "m_state s = Some n"
  shows "free_row s 0 (m, c) =
      Inr (m(d_constraintIndex s \<mapsto>
             row_of m (d_constraintIndex s) @ row_entries n (d_indices s) (Vec3 1 0 0)), c + 1)"
    and "free_row s (Suc 0) (m, c) =
      Inr (m(d_constraintIndex s + 1 \<mapsto>
             row_of m (d_constraintIndex s + 1) @ row_entries n (d_indices s) (Vec3 0 1 0)), c + 1)"
    and "free_row s 2 (m, c) =
      Inr (m(d_constraintIndex s + 2 \<mapsto>
             row_of m (d_constraintIndex s + 2) @ row_entries n (d_indices s) (Vec3 0 0 1)), c + 1)"
  by (simp_all add: free_row_def Deriv_set_def emit_row [OF assms] bind_error_def)

lemma free_rows:
  assumes "m_state s = Some n"
  shows "for_each (free_row s) [0..<total_size] (m, c) =
     Inr (m(d_constraintIndex s \<mapsto> row_of m (d_constraintIndex s) @ row_entries n (d_indices s) (Vec3 1 0 0),
            d_constraintIndex s + 1 \<mapsto>
              row_of m (d_constraintIndex s + 1) @ row_entries n (d_indices s) (Vec3 0 1 0),
            d_constraintIndex s + 2 \<mapsto>
              row_of m (d_constraintIndex s + 2) @ row_entries n (d_indices s) (Vec3 0 0 1)),
          c + 3)"
  by (simp add: axes_list free_row_closed [OF assms] bind_error_def row_of_def)

lemma fixed_row_closed:
  assumes "m_state s = Some n"
  shows "fixed_row lib s (m, c) =
     Inr (m(d_constraintIndex s \<mapsto>
            row_of m (d_constraintIndex s) @
            row_entries n (d_indices s) (divide_Deriv (d_direction s) (norm_of lib (d_direction s)))),
          c + 1)"
  by (simp add: fixed_row_def emit_row [OF assms] bind_error_def)


text \<open>The row vector of the direction \<open>(2, 3, 6)\<close> in double precision.\<close>

lemma slanted_norm:
  "norm_of double_library (Vec3 (Double 2) (Double 3) (Double 6)) = Double 7"
  by (simp add: double_library_def double_2_times_2 double_3_times_3 double_6_times_6
      double_4_plus_9 double_13_plus_36 double_sqrt_49)

lemma slanted_row:
  "divide_Deriv (Vec3 (Double 2) (Double 3) (Double 6))
     (norm_of double_library (Vec3 (Double 2) (Double 3) (Double 6))) =
   Vec3 two_sevenths three_sevenths six_sevenths"
  by (simp add: slanted_norm double_2_div_7 double_3_div_7 double_6_div_7)





section \<open>Failure of the per-iteration calls\<close>

lemma buildConstraintMatrix_returns:
  assumes "m_state s = Some n"
  shows "\<exists>r. buildConstraintMatrix lib s M c = Inr r"
proof -
  have st: "m_state (s\<lparr>d_constraintIndex := c\<rparr>) = Some n" using assms by simp
  show ?thesis
    by (simp add: buildConstraintMatrix_def Let_def free_rows [OF st] fixed_row_closed [OF st]
        bind_error_def)
qed

lemma buildConstraintMatrix_null_state:
  assumes "m_state s = None" and "d_indices s \<noteq> []"
  shows "buildConstraintMatrix lib s M c = Inl NullState"
proof -
  obtain i idxs where idx: "d_indices s = i # idxs"
    using assms(2) by (cases "d_indices s") auto
  have first: "for_each (addCol_if_valid (s\<lparr>d_constraintIndex := c\<rparr>) r dir) (i # idxs) m = Inl NullState"
    for r dir m
    using assms(1) by (simp add: addCol_if_valid_def bind_error_def)
  have "free_row (s\<lparr>d_constraintIndex := c\<rparr>) 0 (M, c) = Inl NullState"
    by (simp add: free_row_def Deriv_set_def idx first bind_error_def del: for_each.simps)
  then have free: "for_each (free_row (s\<lparr>d_constraintIndex := c\<rparr>)) [0..<total_size] (M, c) = Inl NullState"
    by (simp add: axes_list bind_error_def)
  have fixed: "fixed_row lib (s\<lparr>d_constraintIndex := c\<rparr>) (M, c) = Inl NullState"
    by (simp add: fixed_row_def idx first bind_error_def del: for_each.simps)
  show ?thesis
    by (simp add: buildConstraintMatrix_def Let_def free fixed bind_error_def)
qed

text \<open>
  Claim C9, as amended. \<open>buildConstraintMatrix\<close> returns on every index list, matrix
  and row offset once the actuator has a mechanical state: point indices past the
  end of the body are skipped and an empty index list is accepted. \<open>storeResults\<close>
  checks no length: on an initialised actuator its own steps complete, and the call
  is whatever the base behaviour returns, when \<open>delta\<close> is non-empty and \<open>lambda\<close> has
  at least \<open>dimension\<close> entries; with an empty \<open>delta\<close>, or with a \<open>lambda\<close> shorter
  than the dimension, it reads past the end of the sequence.
\<close>

theorem hot_path_failures:
  "(m_state s = Some n \<longrightarrow> (\<exists>r. buildConstraintMatrix lib s M c = Inr r)) \<and>
   (initialised s \<and> delta \<noteq> [] \<and> m_dim s \<le> length lambda \<longrightarrow>
      (\<exists>s3. updateLimit (s\<lparr>d_force := take (m_dim s) lambda, d_displacement := delta ! 0\<rparr>) = Inr s3 \<and>
         storeResults base s lambda delta = base s3 lambda delta)) \<and>
   (delta = [] \<longrightarrow> storeResults base s lambda delta = Inl OutOfRange) \<and>
   (initialised s \<and> length lambda < m_dim s \<longrightarrow>
      storeResults base s lambda delta = Inl OutOfRange)"
proof (intro conjI impI)
  assume "m_state s = Some n"
  then show "\<exists>r. buildConstraintMatrix lib s M c = Inr r"
    by (rule buildConstraintMatrix_returns)
next
  assume a: "initialised s \<and> delta \<noteq> [] \<and> m_dim s \<le> length lambda"
  then have "initialised (s\<lparr>d_force := take (m_dim s) lambda, d_displacement := delta ! 0\<rparr>)"
    by (simp add: storeResults_state_initialised)
  from updateLimit_initialised [OF this] obtain s3
    where upd: "updateLimit (s\<lparr>d_force := take (m_dim s) lambda, d_displacement := delta ! 0\<rparr>) = Inr s3" ..
  with a have "storeResults base s lambda delta = base s3 lambda delta"
    by (simp add: storeResults_closed bind_error_def)
  with upd show "\<exists>s3. updateLimit (s\<lparr>d_force := take (m_dim s) lambda, d_displacement := delta ! 0\<rparr>) = Inr s3 \<and>
         storeResults base s lambda delta = base s3 lambda delta" by blast
next
  assume "delta = []"
  then show "storeResults base s lambda delta = Inl OutOfRange"
    by (simp add: storeResults_empty_delta)
next
  assume "initialised s \<and> length lambda < m_dim s"
  then show "storeResults base s lambda delta = Inl OutOfRange"
    by (simp add: storeResults_short_lambda)
qed

theorem hot_path_failures_witness:
  "m_state stale_index_actuator = Some 2 \<and>
   (\<exists>r. buildConstraintMatrix exact_library stale_index_actuator Map.empty 0 = Inr r) \<and>
   initialised free_actuator \<and>
   (\<exists>s3. storeResults base_noop free_actuator [1, 2, 3] [0] = base_noop s3 [1, 2, 3] [0]) \<and>
   storeResults base_noop free_actuator [1, 2, 3] [] = Inl OutOfRange \<and>
   storeResults base_noop free_actuator [1, 2] [0] = Inl OutOfRange"
proof -
  have st: "m_state stale_index_actuator = Some 2"
    by (simp add: stale_index_actuator_def scenario_free_actuator_def
        free_actuator_def fixed_actuator_def)
  have dim: "m_dim free_actuator = 3" by (simp add: free_actuator_def)
  from hot_path_failures [of stale_index_actuator 2 exact_library Map.empty 0] st
  have "\<exists>r. buildConstraintMatrix exact_library stale_index_actuator Map.empty 0 = Inr r" by blast
  moreover have "initialised free_actuator \<and> [0] \<noteq> ([] :: real list) \<and>
      m_dim free_actuator \<le> length [1, 2, 3 :: real]"
    using initialised_free by (simp add: dim)
  with hot_path_failures [of free_actuator 0 exact_library Map.empty 0 "[0]" "[1, 2, 3]" base_noop]
  have "\<exists>s3. storeResults base_noop free_actuator [1, 2, 3] [0] = base_noop s3 [1, 2, 3] [0]"
    by blast
  moreover from hot_path_failures [of free_actuator _ _ _ _ "[]" "[1, 2, 3]" base_noop]
  have "storeResults base_noop free_actuator [1, 2, 3] [] = Inl OutOfRange" by simp
  moreover from hot_path_failures [of free_actuator _ _ _ _ "[0]" "[1, 2]" base_noop]
  have "storeResults base_noop free_actuator [1, 2] [0] = Inl OutOfRange"
    using initialised_free by (simp add: dim)
  ultimately show ?thesis
    using st initialised_free by blast
qed

text \<open>
  The claim as stated fails for \<open>storeResults\<close>: with empty \<open>lambda\<close> and \<open>delta\<close> the
  read \<open>delta[0]\<close> is past the end, and with a non-empty \<open>delta\<close> the read \<open>lambda[0]\<close>
  is.
\<close>

theorem storeResults_counterexample:
  "initialised fixed_actuator \<and>
   storeResults base_noop fixed_actuator [] [] = Inl OutOfRange \<and>
   storeResults base_noop fixed_actuator [] [1 / 5] = Inl OutOfRange"
proof -
  have "storeResults base_noop fixed_actuator [] [] = Inl OutOfRange"
    by (simp add: storeResults_alt vector_read_def bind_error_def)
  moreover have "storeResults base_noop fixed_actuator [] [1 / 5] = Inl OutOfRange"
    by (simp add: storeResults_alt vector_read_def bind_error_def axes_def
        store_force_closed fixed_actuator_def)
  ultimately show ?thesis
    using initialised_fixed by simp
qed
end
